theory Spec2Isabelle
  imports Complex_Main
begin

section \<open>Exceptions, process handles and the trace of external actions\<close>

text \<open>
  The script \<^verbatim>\<open>main.py\<close> drives three external tools and a small HTTP handler.
  Everything the environment decides (what a subprocess prints, whether it is still alive,
  whether a call raises) is an explicit argument of the function that makes the call, and
  everything the script does to the outside world is appended to a trace of events.

  The exceptions that the calls of the script can raise. All of them are instances of
  Python's \<^verbatim>\<open>Exception\<close> except \<^verbatim>\<open>KeyboardInterrupt\<close>, which derives from
  \<^verbatim>\<open>BaseException\<close> only: an \<^verbatim>\<open>except Exception\<close> clause does not catch it.
  \<^verbatim>\<open>CalledProcessError\<close> carries the exit status and the captured output.
\<close>

datatype exn =
    CalledProcessError int string
  | TimeoutExpired
  | FileNotFoundError
  | PermissionError
  | ProcessLookupError
  | BrokenPipeError
  | ConnectionResetError
  | OSError
  | ValueError
  | RuntimeError
  | KeyboardInterrupt

fun is_Exception :: "exn \<Rightarrow> bool" where
  "is_Exception KeyboardInterrupt = False"
| "is_Exception _ = True"

fun is_OSError :: "exn \<Rightarrow> bool" where
  "is_OSError FileNotFoundError = True"
| "is_OSError PermissionError = True"
| "is_OSError ProcessLookupError = True"
| "is_OSError BrokenPipeError = True"
| "is_OSError ConnectionResetError = True"
| "is_OSError OSError = True"
| "is_OSError _ = False"

text \<open>The attribute \<^verbatim>\<open>output\<close> that \<^verbatim>\<open>run_curl\<close> looks for with \<^verbatim>\<open>hasattr\<close>.\<close>

fun exn_output :: "exn \<Rightarrow> string option" where
  "exn_output (CalledProcessError rc out) = Some out"
| "exn_output TimeoutExpired = Some ''None''"
| "exn_output _ = None"

text \<open>
  A \<^verbatim>\<open>subprocess.Popen\<close> object, described by what the process and the operating system
  will answer:
  \<^item> \<open>poll_result\<close>: the value of \<^verbatim>\<open>poll()\<close> after the settle sleep of \<^verbatim>\<open>start_singbox\<close>
    (\<open>None\<close>: still running), which the object keeps as its \<^verbatim>\<open>returncode\<close>;
  \<^item> \<open>stderr_text\<close>: the text on its standard error;
  \<^item> \<open>exited_at_terminate\<close>, \<open>exited_at_kill\<close>: the exit status that the poll at the start of
    \<^verbatim>\<open>terminate()\<close> and of \<^verbatim>\<open>kill()\<close> finds, when the object knows none yet;
  \<^item> \<open>terminate_result\<close>, \<open>kill_result\<close>: the exception of \<^verbatim>\<open>os.kill\<close> with \<^verbatim>\<open>SIGTERM\<close> and
    with \<^verbatim>\<open>SIGKILL\<close>, if any, when the signal is sent;
  \<^item> \<open>wait_result\<close>: the outcome of \<^verbatim>\<open>wait(timeout=4)\<close> when the object knows no exit
    status yet. \<open>Inr rc\<close> says that the process exits within the four seconds,
    \<open>Inl TimeoutExpired\<close> that it is still alive then.
\<close>

record popen =
  pid :: nat
  poll_result :: "int option"
  stderr_text :: string
  exited_at_terminate :: "int option"
  terminate_result :: "exn option"
  wait_result :: "exn + int"
  exited_at_kill :: "int option"
  kill_result :: "exn option"

datatype signal = SIGTERM | SIGKILL

section \<open>Strings and numbers of the Python runtime\<close>

text \<open>
  Strings are lists of characters; the script handles ASCII text only (command lines, the
  output of the tools). \<^verbatim>\<open>str.strip()\<close> removes the ASCII whitespace characters
  (codes 9 to 13, 28 to 32) from both ends.
\<close>

definition is_space :: "char \<Rightarrow> bool" where
  "is_space c = (let n = (of_char c :: nat) in (9 \<le> n \<and> n \<le> 13) \<or> (28 \<le> n \<and> n \<le> 32))"

definition strip :: "string \<Rightarrow> string" where
  "strip s = rev (dropWhile is_space (rev (dropWhile is_space s)))"

definition is_digit :: "char \<Rightarrow> bool" where
  "is_digit c = (let n = (of_char c :: nat) in 48 \<le> n \<and> n \<le> 57)"

definition digit_val :: "char \<Rightarrow> nat" where
  "digit_val c = (of_char c :: nat) - 48"

definition digit_char :: "nat \<Rightarrow> char" where
  "digit_char d = ''0123456789'' ! d"

text \<open>\<^verbatim>\<open>str(n)\<close> for an integer: decimal digits, a minus sign for a negative number.\<close>

fun str_nat :: "nat \<Rightarrow> string" where
  "str_nat n = (if n < 10 then [digit_char n] else str_nat (n div 10) @ [digit_char (n mod 10)])"

declare str_nat.simps [simp del]

definition str :: "int \<Rightarrow> string" where
  "str i = (if i < 0 then CHR ''-'' # str_nat (nat (- i)) else str_nat (nat i))"

text \<open>The operator \<^verbatim>\<open>in\<close> on two strings: \<open>sub\<close> occurs in \<open>s\<close> as a contiguous block.\<close>

fun starts_with :: "string \<Rightarrow> string \<Rightarrow> bool" where
  "starts_with s [] = True"
| "starts_with [] (c # cs) = False"
| "starts_with (x # xs) (c # cs) = (x = c \<and> starts_with xs cs)"

fun contains :: "string \<Rightarrow> string \<Rightarrow> bool" where
  "contains [] sub = (sub = [])"
| "contains (x # xs) sub = (starts_with (x # xs) sub \<or> contains xs sub)"

text \<open>\<^verbatim>\<open>os.path.join\<close> of two components on POSIX.\<close>

definition path_join :: "string \<Rightarrow> string \<Rightarrow> string" where
  "path_join a b =
     (if starts_with b ''/'' then b
      else if a = [] \<or> last a = CHR ''/'' then a @ b
      else a @ ''/'' @ b)"

text \<open>
  A Python \<^verbatim>\<open>float\<close>. The finite values are modelled by the rational they denote:
  the rounding of binary64 arithmetic is not modelled, so a finite result below is the
  exact quotient or product, of which the machine value is the nearest double.
  The two infinities and not-a-number are kept, since \<^verbatim>\<open>float()\<close> accepts their names.
\<close>

datatype pyfloat = Fin rat | PosInf | NegInf | NaN

text \<open>Division and multiplication by a positive finite constant.\<close>

fun fdiv :: "pyfloat \<Rightarrow> rat \<Rightarrow> pyfloat" where
  "fdiv (Fin x) d = Fin (x / d)"
| "fdiv PosInf d = PosInf"
| "fdiv NegInf d = NegInf"
| "fdiv NaN d = NaN"

fun fmul :: "pyfloat \<Rightarrow> rat \<Rightarrow> pyfloat" where
  "fmul (Fin x) k = Fin (x * k)"
| "fmul PosInf k = PosInf"
| "fmul NegInf k = NegInf"
| "fmul NaN k = NaN"

fun fneg :: "pyfloat \<Rightarrow> pyfloat" where
  "fneg (Fin x) = Fin (- x)"
| "fneg PosInf = NegInf"
| "fneg NegInf = PosInf"
| "fneg NaN = NaN"

text \<open>
  \<^verbatim>\<open>float(s)\<close> on a string, after the grammar of the language reference:
  \<^verbatim>\<open>
  digitpart   ::= digit (["_"] digit)*
  number      ::= [digitpart] "." digitpart | digitpart ["."]
  exponent    ::= ("e" | "E") [sign] digitpart
  floatvalue  ::= [sign] (number [exponent] | "inf" | "infinity" | "nan")
  \<close>
  with surrounding whitespace ignored and the three names matched without regard to case.
  \<open>None\<close> stands for the \<^verbatim>\<open>ValueError\<close> that \<^verbatim>\<open>float\<close> raises on anything else.
\<close>

definition skip_underscore :: "string \<Rightarrow> string" where
  "skip_underscore r =
     (case r of
        u # d # r' \<Rightarrow> if u = CHR ''_'' \<and> is_digit d then d # r' else r
      | _ \<Rightarrow> r)"

lemma length_skip_underscore: "length (skip_underscore r) \<le> length r"
  by (simp add: skip_underscore_def split: list.split)

function digitpart :: "string \<Rightarrow> nat list \<times> string" where
  "digitpart [] = ([], [])"
| "digitpart (c # r) =
     (if is_digit c
      then (case digitpart (skip_underscore r) of (ds, rest) \<Rightarrow> (digit_val c # ds, rest))
      else ([], c # r))"
  by pat_completeness auto
termination
  by (relation "measure length") (simp_all add: length_skip_underscore le_imp_less_Suc)

definition nat_of_digits :: "nat list \<Rightarrow> nat" where
  "nat_of_digits ds = foldl (\<lambda>a d. 10 * a + d) 0 ds"

definition to_lower :: "char \<Rightarrow> char" where
  "to_lower c =
     (case map_of (zip ''ABCDEFGHIJKLMNOPQRSTUVWXYZ'' ''abcdefghijklmnopqrstuvwxyz'') c of
        Some l \<Rightarrow> l
      | None \<Rightarrow> c)"

text \<open>The mantissa: integer digits, fraction digits and what follows them.\<close>

definition parse_number :: "string \<Rightarrow> (nat list \<times> nat list \<times> string) option" where
  "parse_number s =
     (case digitpart s of (ip, r1) \<Rightarrow>
        (case r1 of
           [] \<Rightarrow> if ip = [] then None else Some (ip, [], r1)
         | c # r2 \<Rightarrow>
             if c = CHR ''.'' then
               (case digitpart r2 of (fp, r3) \<Rightarrow>
                  if ip = [] \<and> fp = [] then None else Some (ip, fp, r3))
             else if ip = [] then None else Some (ip, [], r1)))"

text \<open>The exponent, \<open>0\<close> when there is none; \<open>None\<close> when the rest is not an exponent.\<close>

definition parse_exponent :: "string \<Rightarrow> int option" where
  "parse_exponent s =
     (case s of
        [] \<Rightarrow> Some 0
      | e # r \<Rightarrow>
          if e = CHR ''e'' \<or> e = CHR ''E'' then
            (let (neg, r') = (case r of
                                [] \<Rightarrow> (False, r)
                              | g # t \<Rightarrow> if g = CHR ''-'' then (True, t)
                                         else if g = CHR ''+'' then (False, t) else (False, r))
             in (case digitpart r' of (ds, rest) \<Rightarrow>
                   if ds = [] \<or> rest \<noteq> [] then None
                   else Some (if neg then - int (nat_of_digits ds) else int (nat_of_digits ds))))
          else None)"

definition pow10 :: "int \<Rightarrow> rat" where
  "pow10 e = (if 0 \<le> e then 10 ^ nat e else 1 / 10 ^ nat (- e))"

definition parse_abs :: "string \<Rightarrow> pyfloat option" where
  "parse_abs s =
     (let l = map to_lower s in
      if l = ''inf'' \<or> l = ''infinity'' then Some PosInf
      else if l = ''nan'' then Some NaN
      else (case parse_number s of
              None \<Rightarrow> None
            | Some (ip, fp, rest) \<Rightarrow>
                (case parse_exponent rest of
                   None \<Rightarrow> None
                 | Some e \<Rightarrow>
                     Some (Fin (of_nat (nat_of_digits (ip @ fp)) * pow10 (e - int (length fp)))))))"

definition py_float :: "string \<Rightarrow> pyfloat option" where
  "py_float s =
     (case strip s of
        [] \<Rightarrow> None
      | c # r \<Rightarrow>
          if c = CHR ''-'' then map_option fneg (parse_abs r)
          else if c = CHR ''+'' then parse_abs r
          else parse_abs (c # r))"

section \<open>Constants of the script\<close>

definition SINGBOX :: string where "SINGBOX = ''/usr/bin/sing-box''"
definition OPENSSL :: string where "OPENSSL = ''/usr/bin/openssl''"
definition CURL :: string where "CURL = ''/usr/bin/curl''"

definition BASE_CLIENT_PORT :: int where "BASE_CLIENT_PORT = 15000"
definition BASE_SERVER_PORT :: int where "BASE_SERVER_PORT = 20000"
definition HTTP_SERVER_PORT :: int where "HTTP_SERVER_PORT = 8000"
definition DURATION :: int where "DURATION = 12"

text \<open>\<^verbatim>\<open>MAX_TEST_BYTES = 8 << 30\<close>.\<close>

definition MAX_TEST_BYTES :: nat where "MAX_TEST_BYTES = 8 * 2 ^ 30"

section \<open>Configuration objects and the trace\<close>

text \<open>The dictionaries that \<^verbatim>\<open>json.dump\<close> writes, with the keys in the order of the source.\<close>

datatype json =
    JStr string
  | JInt int
  | JBool bool
  | JList "json list"
  | JDict "(string \<times> json) list"

definition gen_ss_config :: "string \<Rightarrow> string \<Rightarrow> int \<Rightarrow> int \<Rightarrow> json \<times> json" where
  "gen_ss_config method password server_port client_port =
     (let server = JDict
            [(''log'', JDict [(''level'', JStr ''error''), (''timestamp'', JBool False)]),
             (''inbounds'', JList
                [JDict [(''type'', JStr ''shadowsocks''),
                        (''tag'', JStr ''ss-in''),
                        (''listen'', JStr ''127.0.0.1''),
                        (''listen_port'', JInt server_port),
                        (''method'', JStr method),
                        (''password'', JStr password)]]),
             (''outbounds'', JList [JDict [(''type'', JStr ''direct''), (''tag'', JStr ''direct'')]])];
          client = JDict
            [(''log'', JDict [(''level'', JStr ''error''), (''timestamp'', JBool False)]),
             (''inbounds'', JList
                [JDict [(''type'', JStr ''socks''),
                        (''tag'', JStr ''socks-in''),
                        (''listen'', JStr ''127.0.0.1''),
                        (''listen_port'', JInt client_port)]]),
             (''outbounds'', JList
                [JDict [(''type'', JStr ''shadowsocks''),
                        (''tag'', JStr ''ss-out''),
                        (''server'', JStr ''127.0.0.1''),
                        (''server_port'', JInt server_port),
                        (''method'', JStr method),
                        (''password'', JStr password)],
                 JDict [(''type'', JStr ''direct''), (''tag'', JStr ''direct'')]]),
             (''route'', JDict [(''rules'', JList [JDict [(''outbound'', JStr ''ss-out'')]])])]
      in (server, client))"

text \<open>
  What the script prints. The layout of the lines (field widths, the number of decimals)
  is not modelled: a message carries the values that are formatted.
\<close>

datatype message =
    MsgHeader string
  | MsgStartFailed string string
  | MsgSpeed pyfloat pyfloat
  | MsgFailed
  | MsgCurlFailed exn
  | MsgOutput string
  | MsgRow string pyfloat pyfloat
  | MsgRowFailed string

text \<open>
  The actions on the outside world, in the order in which the script performs them:
  a command run to completion with its output captured, a configuration file written,
  a process spawned (with the pid of the new handle), the three calls on a process handle
  (the argument of \<open>Wait\<close> after the pid is the timeout in seconds), a signal that such a
  call sends to the process with \<^verbatim>\<open>os.kill\<close>, the start and the shutdown of the HTTP server,
  and a line printed.
  The sleeps of the script change nothing that is modelled and leave no event.
\<close>

datatype event =
    CheckOutput "string list"
  | WriteFile string json
  | Spawn "string list" nat
  | Terminate nat
  | Wait nat nat
  | Kill nat
  | OsKill nat signal
  | HttpdStart int
  | HttpdShutdown
  | Print message

text \<open>
  A call with effects returns its value or the exception it raises, and the trace
  extended by what it did.
\<close>

type_synonym 'a res = "(exn + 'a) \<times> event list"

definition bind_res :: "'a res \<Rightarrow> ('a \<Rightarrow> event list \<Rightarrow> 'b res) \<Rightarrow> 'b res" where
  "bind_res m f = (case m of (Inl e, tr) \<Rightarrow> (Inl e, tr) | (Inr a, tr) \<Rightarrow> f a tr)"

text \<open>The clause \<^verbatim>\<open>except Exception: pass\<close> around a block.\<close>

definition except_Exception_pass :: "unit res \<Rightarrow> unit res" where
  "except_Exception_pass m =
     (case m of
        (Inl e, tr) \<Rightarrow> if is_Exception e then (Inr (), tr) else (Inl e, tr)
      | (Inr u, tr) \<Rightarrow> (Inr u, tr))"

section \<open>Helpers\<close>

text \<open>
  \<^verbatim>\<open>gen_password\<close>: the first argument is what \<^verbatim>\<open>subprocess.check_output\<close> does on the
  command, its text or the exception it raises.
\<close>

definition gen_password :: "exn + string \<Rightarrow> int \<Rightarrow> event list \<Rightarrow> string res" where
  "gen_password out bits tr =
     (let byte_len = bits div 8;
          cmd = [OPENSSL, ''rand'', ''-base64'', str byte_len];
          tr' = tr @ [CheckOutput cmd]
      in (case out of Inl e \<Rightarrow> (Inl e, tr') | Inr text \<Rightarrow> (Inr (strip text), tr')))"

definition get_pwd_for_method :: "exn + string \<Rightarrow> string \<Rightarrow> event list \<Rightarrow> string res" where
  "get_pwd_for_method out method tr =
     (if contains method ''128'' then gen_password out 128 tr
      else gen_password out 256 tr)"

text \<open>\<^verbatim>\<open>write_cfg\<close>: \<open>w\<close> is the exception of \<^verbatim>\<open>open\<close> or \<^verbatim>\<open>json.dump\<close>, if any.\<close>

definition write_cfg :: "exn option \<Rightarrow> json \<Rightarrow> string \<Rightarrow> event list \<Rightarrow> unit res" where
  "write_cfg w obj path tr =
     (case w of Some e \<Rightarrow> (Inl e, tr) | None \<Rightarrow> (Inr (), tr @ [WriteFile path obj]))"

text \<open>
  \<^verbatim>\<open>start_singbox\<close>: \<open>spawn\<close> is what \<^verbatim>\<open>subprocess.Popen\<close> does, the new handle or the
  exception it raises. After the settle sleep the handle is polled; a process that has
  exited is reported and \<open>None\<close> is returned instead of the handle.
\<close>

definition start_singbox :: "exn + popen \<Rightarrow> string \<Rightarrow> string \<Rightarrow> event list \<Rightarrow> popen option res" where
  "start_singbox spawn cfg_path name tr =
     (case spawn of
        Inl e \<Rightarrow> (Inl e, tr)
      | Inr p \<Rightarrow>
          (let tr1 = tr @ [Spawn [SINGBOX, ''run'', ''-c'', cfg_path] (pid p)]
           in (case poll_result p of
                 Some rc \<Rightarrow> (Inr None, tr1 @ [Print (MsgStartFailed name (stderr_text p))])
               | None \<Rightarrow> (Inr (Some p), tr1))))"

text \<open>
  The three methods of a handle that \<^verbatim>\<open>terminate_process\<close> calls, after the POSIX
  implementation in \<^verbatim>\<open>subprocess.py\<close> of CPython 3.9 and later. Each takes the
  \<^verbatim>\<open>returncode\<close> of the object and returns the new one beside its result.

  \<^verbatim>\<open>poll()\<close> keeps an exit status that is known and asks the system otherwise.
\<close>

definition poll :: "int option \<Rightarrow> int option \<Rightarrow> int option" where
  "poll returncode found = (case returncode of Some c \<Rightarrow> Some c | None \<Rightarrow> found)"

text \<open>
  \<^verbatim>\<open>
  def send_signal(self, sig):
      self.poll()
      if self.returncode is not None:
          return
      try:
          os.kill(self.pid, sig)
      except ProcessLookupError:
          pass
  \<close>
  \<^verbatim>\<open>terminate()\<close> is \<^verbatim>\<open>send_signal(SIGTERM)\<close> and \<^verbatim>\<open>kill()\<close> is \<^verbatim>\<open>send_signal(SIGKILL)\<close>:
  a process whose exit status is known receives no signal.
\<close>

definition send_signal :: "popen \<Rightarrow> signal \<Rightarrow> int option \<Rightarrow> event list \<Rightarrow> unit res \<times> int option" where
  "send_signal p sig returncode tr =
     (let rc = poll returncode
                 (case sig of SIGTERM \<Rightarrow> exited_at_terminate p | SIGKILL \<Rightarrow> exited_at_kill p)
      in if rc \<noteq> None then ((Inr (), tr), rc)
         else (case (case sig of SIGTERM \<Rightarrow> terminate_result p | SIGKILL \<Rightarrow> kill_result p) of
                 None \<Rightarrow> ((Inr (), tr @ [OsKill (pid p) sig]), rc)
               | Some e \<Rightarrow>
                   if e = ProcessLookupError then ((Inr (), tr @ [OsKill (pid p) sig]), rc)
                   else ((Inl e, tr @ [OsKill (pid p) sig]), rc)))"

definition p_terminate :: "popen \<Rightarrow> int option \<Rightarrow> event list \<Rightarrow> unit res \<times> int option" where
  "p_terminate p returncode tr = send_signal p SIGTERM returncode (tr @ [Terminate (pid p)])"

definition p_kill :: "popen \<Rightarrow> int option \<Rightarrow> event list \<Rightarrow> unit res \<times> int option" where
  "p_kill p returncode tr = send_signal p SIGKILL returncode (tr @ [Kill (pid p)])"

text \<open>
  \<^verbatim>\<open>wait(timeout)\<close> returns a known exit status at once; otherwise it waits, and stores
  the exit status when the process exits in time.
\<close>

definition p_wait :: "popen \<Rightarrow> nat \<Rightarrow> int option \<Rightarrow> event list \<Rightarrow> int res \<times> int option" where
  "p_wait p timeout returncode tr =
     (let tr' = tr @ [Wait (pid p) timeout]
      in (case returncode of
            Some c \<Rightarrow> ((Inr c, tr'), Some c)
          | None \<Rightarrow>
              (case wait_result p of
                 Inl e \<Rightarrow> ((Inl e, tr'), None)
               | Inr c \<Rightarrow> ((Inr c, tr'), Some c))))"

text \<open>
  \<^verbatim>\<open>terminate_process\<close>: return at once without a handle; otherwise the \<^verbatim>\<open>try\<close> block
  (terminate, then wait four seconds), its \<^verbatim>\<open>except Exception: pass\<close>, and the
  \<^verbatim>\<open>finally\<close> block, which runs on every path and calls \<^verbatim>\<open>p.kill()\<close> under its own
  \<^verbatim>\<open>except Exception: pass\<close>. An exception that leaves the \<^verbatim>\<open>finally\<close> block replaces a
  pending one; otherwise the pending one, if any, is raised again.
  The handle comes from \<^verbatim>\<open>start_singbox\<close>, which has polled it: its \<^verbatim>\<open>returncode\<close> on
  entry is \<open>poll_result p\<close>.
\<close>

definition terminate_process :: "popen option \<Rightarrow> event list \<Rightarrow> unit res" where
  "terminate_process po tr =
     (case po of
        None \<Rightarrow> (Inr (), tr)
      | Some p \<Rightarrow>
          (let (t, rc1) = p_terminate p (poll_result p) tr;
               (try_block, rc2) =
                 (case t of
                    (Inl e, tr1) \<Rightarrow> ((Inl e, tr1), rc1)
                  | (Inr u, tr1) \<Rightarrow>
                      (case p_wait p 4 rc1 tr1 of
                         ((Inl e, tr2), rc) \<Rightarrow> ((Inl e, tr2), rc)
                       | ((Inr c, tr2), rc) \<Rightarrow> ((Inr (), tr2), rc)));
               guarded = except_Exception_pass try_block;
               (k, rc3) = p_kill p rc2 (snd guarded);
               finally_block = except_Exception_pass k
           in (case finally_block of
                 (Inl e, tr3) \<Rightarrow> (Inl e, tr3)
               | (Inr u, tr3) \<Rightarrow> (fst guarded, tr3))))"

section \<open>Benchmark\<close>

text \<open>
  \<^verbatim>\<open>run_curl\<close>: \<open>out\<close> is what \<^verbatim>\<open>subprocess.check_output\<close> does on the curl command.
  The handler of \<^verbatim>\<open>except Exception\<close> prints the exception, and its \<^verbatim>\<open>output\<close> when it
  has one, and returns \<open>None\<close>; it also receives the \<^verbatim>\<open>ValueError\<close> of \<^verbatim>\<open>float\<close>.
\<close>

definition curl_cmd :: "int \<Rightarrow> string list" where
  "curl_cmd client_port =
     [CURL, ''--silent'', ''--show-error'', ''-o'', ''/dev/null'',
      ''-x'', ''socks5h://127.0.0.1:'' @ str client_port,
      ''--max-time'', str (DURATION + 2),
      ''http://127.0.0.1:'' @ str HTTP_SERVER_PORT @ ''/bench'',
      ''-w'', ''%{speed_download}'' @ [CHR 0x5C, CHR ''n'']]"

definition curl_failed :: "exn \<Rightarrow> event list \<Rightarrow> pyfloat option res" where
  "curl_failed e tr =
     (if is_Exception e
      then (Inr None,
            tr @ [Print (MsgCurlFailed e)] @
              (case exn_output e of Some out \<Rightarrow> [Print (MsgOutput out)] | None \<Rightarrow> []))
      else (Inl e, tr))"

definition run_curl :: "exn + string \<Rightarrow> int \<Rightarrow> event list \<Rightarrow> pyfloat option res" where
  "run_curl out client_port tr =
     (let tr1 = tr @ [CheckOutput (curl_cmd client_port)]
      in (case out of
            Inl e \<Rightarrow> curl_failed e tr1
          | Inr text \<Rightarrow>
              (case py_float (strip text) of
                 None \<Rightarrow> curl_failed ValueError tr1
               | Some speed_bps \<Rightarrow> (Inr (Some (fdiv speed_bps (1024 * 1024))), tr1))))"

text \<open>\<^verbatim>\<open>gbps = speed_mib * 8 / 1000\<close>, in the loop and in the summary.\<close>

definition gbps_of :: "pyfloat \<Rightarrow> pyfloat" where
  "gbps_of speed_mib = fdiv (fmul speed_mib 8) 1000"

text \<open>
  What the environment does during one iteration of the loop of \<^verbatim>\<open>main\<close>: the outcome
  of each external call the iteration can make, in the order of the calls.
\<close>

record responses =
  openssl_out :: "exn + string"
  server_write :: "exn option"
  client_write :: "exn option"
  server_spawn :: "exn + popen"
  client_spawn :: "exn + popen"
  curl_out :: "exn + string"

text \<open>The local variables of \<^verbatim>\<open>main\<close> that live across iterations.\<close>

record bench =
  results :: "(string \<times> pyfloat option) list"
  sp :: int
  cp :: int

text \<open>One pass through the body of the \<^verbatim>\<open>for\<close> loop of \<^verbatim>\<open>main\<close>.\<close>

definition bench_iter :: "responses \<Rightarrow> string \<Rightarrow> string \<Rightarrow> bench \<Rightarrow> event list \<Rightarrow> bench res" where
  "bench_iter r workdir method s tr =
     bind_res (get_pwd_for_method (openssl_out r) method (tr @ [Print (MsgHeader method)]))
       (\<lambda>password tr.
     (let (server_cfg, client_cfg) = gen_ss_config method password (sp s) (cp s);
          s_path = path_join workdir (''server-'' @ method @ ''.json'');
          c_path = path_join workdir (''client-'' @ method @ ''.json'')
      in
     bind_res (write_cfg (server_write r) server_cfg s_path tr) (\<lambda>u tr.
     bind_res (write_cfg (client_write r) client_cfg c_path tr) (\<lambda>u tr.
     bind_res (start_singbox (server_spawn r) s_path ''server'' tr) (\<lambda>srv tr.
       if srv = None
       then (Inr (s\<lparr>results := results s @ [(method, None)],
                    sp := sp s + 1, cp := cp s + 1\<rparr>), tr)
       else
     bind_res (start_singbox (client_spawn r) c_path ''client'' tr) (\<lambda>cli tr.
       if cli = None
       then bind_res (terminate_process srv tr) (\<lambda>u tr.
              (Inr (s\<lparr>results := results s @ [(method, None)],
                       sp := sp s + 1, cp := cp s + 1\<rparr>), tr))
       else
     bind_res (run_curl (curl_out r) (cp s) tr) (\<lambda>speed_mib tr.
       (let (results', tr) =
              (case speed_mib of
                 Some v \<Rightarrow> (results s @ [(method, Some v)],
                            tr @ [Print (MsgSpeed v (gbps_of v))])
               | None \<Rightarrow> (results s @ [(method, None)], tr @ [Print MsgFailed]))
        in
     bind_res (terminate_process cli tr) (\<lambda>u tr.
     bind_res (terminate_process srv tr) (\<lambda>u tr.
       (Inr (s\<lparr>results := results', sp := sp s + 2, cp := cp s + 2\<rparr>), tr)))))))))))"

text \<open>
  The loop over the methods. \<open>env i\<close> is what the environment does during iteration \<open>i\<close>.
  An exception that leaves the body ends the loop.
\<close>

fun bench_loop :: "(nat \<Rightarrow> responses) \<Rightarrow> nat \<Rightarrow> string \<Rightarrow> string list \<Rightarrow> bench \<Rightarrow> event list \<Rightarrow> bench res" where
  "bench_loop env i workdir [] s tr = (Inr s, tr)"
| "bench_loop env i workdir (method # ms) s tr =
     (case bench_iter (env i) workdir method s tr of
        (Inl e, tr') \<Rightarrow> (Inl e, tr')
      | (Inr s', tr') \<Rightarrow> bench_loop env (Suc i) workdir ms s' tr')"

definition tests :: "string list" where
  "tests = [''none'', ''aes-128-gcm'', ''aes-256-gcm'', ''chacha20-ietf-poly1305'',
            ''2022-blake3-aes-128-gcm'', ''2022-blake3-aes-256-gcm'']"

definition init_bench :: bench where
  "init_bench = \<lparr>results = [], sp = BASE_SERVER_PORT, cp = BASE_CLIENT_PORT\<rparr>"

text \<open>The rows of the summary table.\<close>

definition summary :: "(string \<times> pyfloat option) list \<Rightarrow> message list" where
  "summary rs =
     map (\<lambda>(method, speed).
            case speed of
              Some v \<Rightarrow> MsgRow method v (gbps_of v)
            | None \<Rightarrow> MsgRowFailed method) rs"

text \<open>
  \<^verbatim>\<open>main\<close>: \<open>httpd\<close> is the exception of \<^verbatim>\<open>start_http_server\<close>, if any (the port may be
  taken), \<open>workdir\<close> the directory that \<^verbatim>\<open>tempfile.mkdtemp\<close> made. The value returned
  here is the list \<^verbatim>\<open>results\<close>, which the script prints and then drops.
\<close>

definition main :: "exn option \<Rightarrow> (nat \<Rightarrow> responses) \<Rightarrow> string \<Rightarrow> event list
    \<Rightarrow> (string \<times> pyfloat option) list res" where
  "main httpd env workdir tr =
     (case httpd of
        Some e \<Rightarrow> (Inl e, tr)
      | None \<Rightarrow>
          (case bench_loop env 0 workdir tests init_bench (tr @ [HttpdStart HTTP_SERVER_PORT]) of
             (Inl e, tr') \<Rightarrow> (Inl e, tr')
           | (Inr s, tr') \<Rightarrow>
               (Inr (results s), tr' @ [HttpdShutdown] @ map Print (summary (results s)))))"

section \<open>The HTTP stream server\<close>

text \<open>
  The connection of one request, described by what it will answer: whether sending the
  response head raises, and for the write and the flush that the loop performs when
  \<open>sent\<close> bytes have gone out, whether it raises. A write that raises may have put a
  part of the chunk on the wire before: \<open>Raised e k\<close> says it raised \<open>e\<close> after \<open>k\<close> bytes.
\<close>

datatype io = Written | Raised exn nat

record connection =
  head_result :: "exn option"
  write_result :: "nat \<Rightarrow> io"
  flush_result :: "nat \<Rightarrow> exn option"

text \<open>\<^verbatim>\<open>chunk = b"\0" * (1024 * 1024) * 1\<close>\<close>

definition chunk :: string where
  "chunk = replicate (1024 * 1024 * 1) (CHR 0x00)"

lemma length_chunk: "length chunk = 1048576"
  by (simp add: chunk_def)

text \<open>
  The \<^verbatim>\<open>while\<close> loop of \<^verbatim>\<open>do_GET\<close>, with the blocks that reached the wire collected in
  \<open>out\<close>. It ends with \<open>Inr sent\<close> when the ceiling is reached and with \<open>Inl e\<close> when a write
  or a flush raises \<open>e\<close>.
\<close>

function stream_loop :: "connection \<Rightarrow> nat \<Rightarrow> string list \<Rightarrow> (exn + nat) \<times> string list" where
  "stream_loop c sent out =
     (if sent < MAX_TEST_BYTES then
        (case write_result c sent of
           Raised e k \<Rightarrow> (Inl e, out @ [take k chunk])
         | Written \<Rightarrow>
             (case flush_result c sent of
                Some e \<Rightarrow> (Inl e, out @ [chunk])
              | None \<Rightarrow> stream_loop c (sent + length chunk) (out @ [chunk])))
      else (Inr sent, out))"
  by pat_completeness auto
termination
  by (relation "measure (\<lambda>(c, sent, out). MAX_TEST_BYTES - sent)") (auto simp: length_chunk)

declare stream_loop.simps [simp del]

text \<open>
  What the handler did on one request: the status it sent, the headers, the blocks of the
  body that reached the wire, the lines it printed, and the exception that left the handler,
  if any. The body and the headers that \<^verbatim>\<open>send_error\<close> composes for an error page belong
  to the library and are left out.
\<close>

record response =
  status :: nat
  headers :: "(string \<times> string) list"
  body :: "string list"
  printed :: "string list"
  raised :: "exn option"

definition BENCH_PATH :: string where "BENCH_PATH = ''/bench''"

definition do_GET :: "connection \<Rightarrow> string \<Rightarrow> response" where
  "do_GET c path =
     (if path \<noteq> BENCH_PATH
      then \<lparr>status = 404, headers = [], body = [], printed = [], raised = head_result c\<rparr>
      else
        (let hs = [(''Content-Type'', ''application/octet-stream'')]
         in (case head_result c of
               Some e \<Rightarrow> \<lparr>status = 200, headers = hs, body = [], printed = [], raised = Some e\<rparr>
             | None \<Rightarrow>
                 (case stream_loop c 0 [] of
                    (Inr sent, out) \<Rightarrow>
                      \<lparr>status = 200, headers = hs, body = out, printed = [], raised = None\<rparr>
                  | (Inl e, out) \<Rightarrow>
                      if is_OSError e
                      then \<lparr>status = 200, headers = hs, body = out, printed = [], raised = None\<rparr>
                      else if is_Exception e
                      then \<lparr>status = 200, headers = hs, body = out,
                            printed = [''HTTP stream error:''], raised = None\<rparr>
                      else \<lparr>status = 200, headers = hs, body = out, printed = [],
                            raised = Some e\<rparr>))))"

text \<open>The number of bytes of a body.\<close>

definition body_size :: "string list \<Rightarrow> nat" where
  "body_size bs = sum_list (map length bs)"

section \<open>Notions used in the statements\<close>

text \<open>
  A process handle whose three calls raise nothing but instances of \<^verbatim>\<open>Exception\<close>,
  that is, errors of the calls themselves and no interrupt arriving during them.
\<close>

definition errors_only :: "popen \<Rightarrow> bool" where
  "errors_only p =
     ((case terminate_result p of Some e \<Rightarrow> is_Exception e | None \<Rightarrow> True) \<and>
      (case wait_result p of Inl e \<Rightarrow> is_Exception e | Inr rc \<Rightarrow> True) \<and>
      (case kill_result p of Some e \<Rightarrow> is_Exception e | None \<Rightarrow> True))"

text \<open>
  What the object knows and does while it is stopped: the exit status it knows after the
  poll of \<^verbatim>\<open>terminate()\<close>; whether \<^verbatim>\<open>terminate()\<close> raises (the signal is sent and
  \<^verbatim>\<open>os.kill\<close> fails with something else than \<^verbatim>\<open>ProcessLookupError\<close>); the exit status it
  knows when the \<^verbatim>\<open>try\<close> block is left; and whether the process is still alive for it at
  the poll of \<^verbatim>\<open>kill()\<close>, that is, no exit status is known then.
\<close>

definition exit_known_at_terminate :: "popen \<Rightarrow> int option" where
  "exit_known_at_terminate p = poll (poll_result p) (exited_at_terminate p)"

definition terminate_raised :: "popen \<Rightarrow> bool" where
  "terminate_raised p =
     (exit_known_at_terminate p = None \<and>
      (case terminate_result p of Some e \<Rightarrow> e \<noteq> ProcessLookupError | None \<Rightarrow> False))"

definition exit_known_after_wait :: "popen \<Rightarrow> int option" where
  "exit_known_after_wait p =
     (case exit_known_at_terminate p of
        Some c \<Rightarrow> Some c
      | None \<Rightarrow>
          if terminate_raised p then None
          else (case wait_result p of Inl e \<Rightarrow> None | Inr c \<Rightarrow> Some c))"

definition still_alive :: "popen \<Rightarrow> bool" where
  "still_alive p = (poll (exit_known_after_wait p) (exited_at_kill p) = None)"

text \<open>The calls that stopping a handle makes on it, and the signals they send, in order.\<close>

definition stop_calls :: "popen \<Rightarrow> event list" where
  "stop_calls p =
     [Terminate (pid p)] @
     (if exit_known_at_terminate p = None then [OsKill (pid p) SIGTERM] else []) @
     (if terminate_raised p then [] else [Wait (pid p) 4]) @
     [Kill (pid p)] @
     (if still_alive p then [OsKill (pid p) SIGKILL] else [])"

text \<open>
  Sample processes: one that exits on the termination signal within the wait, one that
  ignores the termination signal and is still running after the wait, and one on which
  every call fails (no permission to signal it, still alive after the wait).
\<close>

definition proc_graceful :: popen where
  "proc_graceful = \<lparr>pid = 4711, poll_result = None, stderr_text = [],
     exited_at_terminate = None, terminate_result = None, wait_result = Inr (- 15),
     exited_at_kill = None, kill_result = None\<rparr>"

definition proc_hung :: popen where
  "proc_hung = \<lparr>pid = 4714, poll_result = None, stderr_text = [],
     exited_at_terminate = None, terminate_result = None, wait_result = Inl TimeoutExpired,
     exited_at_kill = None, kill_result = None\<rparr>"

definition proc_stubborn :: popen where
  "proc_stubborn = \<lparr>pid = 4712, poll_result = None, stderr_text = [],
     exited_at_terminate = None, terminate_result = Some PermissionError,
     wait_result = Inl TimeoutExpired,
     exited_at_kill = None, kill_result = Some PermissionError\<rparr>"

text \<open>
  Sample connections: a client that takes three chunks and resets the connection one
  hundred bytes into the fourth, and a client that takes everything it is sent.
\<close>

definition conn_patient :: connection where
  "conn_patient = \<lparr>head_result = None,
     write_result = (\<lambda>sent. Written),
     flush_result = (\<lambda>sent. None)\<rparr>"

definition conn_reset :: connection where
  "conn_reset = \<lparr>head_result = None,
     write_result = (\<lambda>sent. if sent < 3 * 1048576 then Written else Raised ConnectionResetError 100),
     flush_result = (\<lambda>sent. None)\<rparr>"

text \<open>
  The events of the first steps of an iteration in which nothing raises: the header line,
  the command that generates the secret, and the two configuration files. The commands
  that start the two processes.
\<close>

definition password_cmd :: "string \<Rightarrow> string list" where
  "password_cmd method =
     [OPENSSL, ''rand'', ''-base64'', if contains method ''128'' then ''16'' else ''32'']"

definition setup_events :: "string \<Rightarrow> string \<Rightarrow> string \<Rightarrow> bench \<Rightarrow> event list" where
  "setup_events workdir method password s =
     [Print (MsgHeader method),
      CheckOutput (password_cmd method),
      WriteFile (path_join workdir (''server-'' @ method @ ''.json''))
        (fst (gen_ss_config method password (sp s) (cp s))),
      WriteFile (path_join workdir (''client-'' @ method @ ''.json''))
        (snd (gen_ss_config method password (sp s) (cp s)))]"

definition server_cmd :: "string \<Rightarrow> string \<Rightarrow> string list" where
  "server_cmd workdir method =
     [SINGBOX, ''run'', ''-c'', path_join workdir (''server-'' @ method @ ''.json'')]"

definition client_cmd :: "string \<Rightarrow> string \<Rightarrow> string list" where
  "client_cmd workdir method =
     [SINGBOX, ''run'', ''-c'', path_join workdir (''client-'' @ method @ ''.json'')]"


text \<open>
  The start operation returned a handle: the process was spawned and was still running
  after the settle sleep.
\<close>

definition started :: "exn + popen \<Rightarrow> bool" where
  "started spawn = (case spawn of Inl e \<Rightarrow> False | Inr p \<Rightarrow> poll_result p = None)"

text \<open>
  A failed measurement: the transfer tool fails (a non-zero exit status, which is also how
  its own timeout ends, or any other error of the call), or its output is not a number.
\<close>

definition measurement_failed :: "exn + string \<Rightarrow> bool" where
  "measurement_failed out =
     (case out of Inl e \<Rightarrow> is_Exception e | Inr text \<Rightarrow> py_float (strip text) = None)"

text \<open>
  An iteration in which no exception leaves the loop body: the secret is generated, both
  configuration files are written, both spawns return a handle, and no interrupt arrives
  during the measurement or the teardown. Processes that exit during the settle sleep,
  failed measurements and errors of the teardown calls are all allowed.
\<close>

definition no_uncaught :: "responses \<Rightarrow> bool" where
  "no_uncaught r =
     ((case openssl_out r of Inl e \<Rightarrow> False | Inr t \<Rightarrow> True) \<and>
      server_write r = None \<and> client_write r = None \<and>
      (case server_spawn r of Inl e \<Rightarrow> False | Inr p \<Rightarrow> errors_only p) \<and>
      (case client_spawn r of Inl e \<Rightarrow> False | Inr p \<Rightarrow> errors_only p) \<and>
      (case curl_out r of Inl e \<Rightarrow> is_Exception e | Inr t \<Rightarrow> True))"

text \<open>The events that start a process.\<close>

fun is_Spawn :: "event \<Rightarrow> bool" where
  "is_Spawn (Spawn cmd q) = True"
| "is_Spawn _ = False"

text \<open>
  The port pair of iteration \<open>i\<close> (counted from \<open>0\<close>): the values of \<^verbatim>\<open>sp\<close> and \<^verbatim>\<open>cp\<close>
  when the loop enters it, which the iteration gives to \<^verbatim>\<open>gen_ss_config\<close> and
  \<^verbatim>\<open>run_curl\<close>; \<open>None\<close> when an exception ends the loop before.
\<close>

definition ports_at :: "(nat \<Rightarrow> responses) \<Rightarrow> string \<Rightarrow> event list \<Rightarrow> nat \<Rightarrow> (int \<times> int) option" where
  "ports_at env workdir tr i =
     (case bench_loop env 0 workdir (take i tests) init_bench tr of
        (Inl e, tr') \<Rightarrow> None
      | (Inr s, tr') \<Rightarrow> Some (sp s, cp s))"

text \<open>
  Sample iterations: a process that exits during the settle sleep; an iteration that
  measures 12500000 bytes per second; iterations in which the server or the client does not
  start, the tool prints no number, or the tool times out; and a run that mixes them.
\<close>

definition proc_exited :: popen where
  "proc_exited = \<lparr>pid = 4713, poll_result = Some 1, stderr_text = ''FATAL'',
     exited_at_terminate = None, terminate_result = None, wait_result = Inr 1,
     exited_at_kill = None, kill_result = None\<rparr>"

definition resp_measured :: responses where
  "resp_measured = \<lparr>openssl_out = Inr (''c2VjcmV0'' @ [CHR 0x0A]),
     server_write = None, client_write = None,
     server_spawn = Inr proc_graceful, client_spawn = Inr proc_stubborn,
     curl_out = Inr (''12500000'' @ [CHR 0x0A])\<rparr>"

definition resp_server_down :: responses where
  "resp_server_down = resp_measured\<lparr>server_spawn := Inr proc_exited\<rparr>"

definition resp_client_down :: responses where
  "resp_client_down = resp_measured\<lparr>client_spawn := Inr proc_exited\<rparr>"

definition resp_garbled :: responses where
  "resp_garbled = resp_measured\<lparr>curl_out := Inr ''n/a''\<rparr>"

definition resp_timeout :: responses where
  "resp_timeout = resp_measured
     \<lparr>curl_out := Inl (CalledProcessError 28 ''curl: (28) Operation timed out'')\<rparr>"

definition env_mixed :: "nat \<Rightarrow> responses" where
  "env_mixed i =
     (if i = 1 then resp_garbled
      else if i = 2 then resp_server_down
      else if i = 3 then resp_timeout
      else if i = 4 then resp_client_down
      else resp_measured)"

section \<open>Properties of the process runner\<close>

lemmas stop_defs = terminate_process_def p_terminate_def p_wait_def p_kill_def send_signal_def
  poll_def except_Exception_pass_def stop_calls_def exit_known_at_terminate_def
  terminate_raised_def exit_known_after_wait_def still_alive_def

lemma snd_terminate_process:
  "snd (terminate_process (Some p) tr) = tr @ stop_calls p"
  by (cases "terminate_result p"; cases "wait_result p"; cases "kill_result p";
      cases "poll_result p"; cases "exited_at_terminate p"; cases "exited_at_kill p")
     (simp_all add: stop_defs Let_def)

lemma fst_terminate_process:
  "errors_only p \<Longrightarrow> fst (terminate_process (Some p) tr) = Inr ()"
  by (cases "terminate_result p"; cases "wait_result p"; cases "kill_result p";
      cases "poll_result p"; cases "exited_at_terminate p"; cases "exited_at_kill p")
     (simp_all add: stop_defs errors_only_def Let_def)

lemma terminate_process_eq:
  "errors_only p \<Longrightarrow> terminate_process (Some p) tr = (Inr (), tr @ stop_calls p)"
  by (metis fst_terminate_process snd_terminate_process prod.collapse)

text \<open>
  An interrupt that arrives during the wait is not an \<^verbatim>\<open>Exception\<close>: the kill is still
  attempted, and the interrupt leaves the function.
\<close>

lemma terminate_process_interrupted:
  "terminate_process (Some (proc_graceful\<lparr>wait_result := Inl KeyboardInterrupt\<rparr>)) [] =
     (Inl KeyboardInterrupt,
      [Terminate 4711, OsKill 4711 SIGTERM, Wait 4711 4, Kill 4711, OsKill 4711 SIGKILL])"
  by (simp add: stop_defs proc_graceful_def)

text \<open>The two sample runs: a graceful exit within the wait, and a process that hangs.\<close>

lemma terminate_process_graceful:
  "terminate_process (Some proc_graceful) [] =
     (Inr (), [Terminate 4711, OsKill 4711 SIGTERM, Wait 4711 4, Kill 4711])"
  by (simp add: stop_defs proc_graceful_def)

lemma terminate_process_hung:
  "terminate_process (Some proc_hung) [] =
     (Inr (), [Terminate 4714, OsKill 4714 SIGTERM, Wait 4714 4, Kill 4714, OsKill 4714 SIGKILL])"
  by (simp add: stop_defs proc_hung_def)

text \<open>
  Claim C6: in the stop operation the force-kill signal is sent exactly when the process is
  still alive once the graceful termination and its bounded wait are over, that is, when
  the handle was running at the settle check, the poll of the terminate call found it
  running, the wait did not return an exit status (it timed out or raised, or the terminate
  call raised before it), and the poll of the kill call found it running still. A process
  that exits within the wait gets the call \<^verbatim>\<open>p.kill()\<close>, which sends nothing: the stop
  operation then consists of the termination signal, the wait and that call. Stopping adds
  its events to the trace and sends no signal to another process.
\<close>

theorem force_kill_only_when_alive:
  "(OsKill q SIGKILL \<in> set (snd (terminate_process (Some p) [])) \<longleftrightarrow>
      q = pid p \<and> poll_result p = None \<and> exited_at_terminate p = None \<and>
      (terminate_raised p \<or> (\<exists>e. wait_result p = Inl e)) \<and> exited_at_kill p = None) \<and>
   (poll_result p = None \<and> exited_at_terminate p = None \<and> \<not> terminate_raised p \<and>
    wait_result p = Inr c \<longrightarrow>
      snd (terminate_process (Some p) []) =
        [Terminate (pid p), OsKill (pid p) SIGTERM, Wait (pid p) 4, Kill (pid p)]) \<and>
   snd (terminate_process (Some p) tr) = tr @ snd (terminate_process (Some p) [])"
proof (intro conjI impI)
  show "OsKill q SIGKILL \<in> set (snd (terminate_process (Some p) [])) \<longleftrightarrow>
      q = pid p \<and> poll_result p = None \<and> exited_at_terminate p = None \<and>
      (terminate_raised p \<or> (\<exists>e. wait_result p = Inl e)) \<and> exited_at_kill p = None"
    by (cases "wait_result p")
       (auto simp: snd_terminate_process stop_calls_def still_alive_def exit_known_after_wait_def
          exit_known_at_terminate_def terminate_raised_def poll_def split: option.splits if_splits)
next
  assume "poll_result p = None \<and> exited_at_terminate p = None \<and> \<not> terminate_raised p \<and>
    wait_result p = Inr c"
  then show "snd (terminate_process (Some p) []) =
        [Terminate (pid p), OsKill (pid p) SIGTERM, Wait (pid p) 4, Kill (pid p)]"
    by (simp add: snd_terminate_process stop_calls_def still_alive_def exit_known_after_wait_def
        exit_known_at_terminate_def poll_def)
next
  show "snd (terminate_process (Some p) tr) = tr @ snd (terminate_process (Some p) [])"
    by (simp add: snd_terminate_process)
qed

theorem force_kill_only_when_alive_witness:
  "\<not> terminate_raised proc_graceful \<and> wait_result proc_graceful = Inr (- 15) \<and>
   snd (terminate_process (Some proc_graceful) []) =
     [Terminate 4711, OsKill 4711 SIGTERM, Wait 4711 4, Kill 4711] \<and>
   OsKill 4711 SIGKILL \<notin> set (snd (terminate_process (Some proc_graceful) [])) \<and>
   wait_result proc_hung = Inl TimeoutExpired \<and>
   OsKill 4714 SIGKILL \<in> set (snd (terminate_process (Some proc_hung) []))"
proof -
  have g: "poll_result proc_graceful = None \<and> exited_at_terminate proc_graceful = None \<and>
      \<not> terminate_raised proc_graceful \<and> wait_result proc_graceful = Inr (- 15)"
    by (simp add: proc_graceful_def terminate_raised_def)
  have h: "4714 = pid proc_hung \<and> poll_result proc_hung = None \<and>
      exited_at_terminate proc_hung = None \<and>
      (terminate_raised proc_hung \<or> (\<exists>e. wait_result proc_hung = Inl e)) \<and>
      exited_at_kill proc_hung = None"
    by (simp add: proc_hung_def)
  have n: "\<not> (4711 = pid proc_graceful \<and> poll_result proc_graceful = None \<and>
      exited_at_terminate proc_graceful = None \<and>
      (terminate_raised proc_graceful \<or> (\<exists>e. wait_result proc_graceful = Inl e)) \<and>
      exited_at_kill proc_graceful = None)"
    by (simp add: proc_graceful_def terminate_raised_def exit_known_at_terminate_def poll_def)
  note G = force_kill_only_when_alive [of 4711 proc_graceful "- 15" "[]"]
  note H = force_kill_only_when_alive [of 4714 proc_hung 0 "[]"]
  have g1: "snd (terminate_process (Some proc_graceful) []) =
      [Terminate (pid proc_graceful), OsKill (pid proc_graceful) SIGTERM,
       Wait (pid proc_graceful) 4, Kill (pid proc_graceful)]"
    using G [THEN conjunct2, THEN conjunct1] g by blast
  have g2: "OsKill 4711 SIGKILL \<notin> set (snd (terminate_process (Some proc_graceful) []))"
    using G [THEN conjunct1] n by blast
  have h1: "OsKill 4714 SIGKILL \<in> set (snd (terminate_process (Some proc_hung) []))"
    using H [THEN conjunct1] h by blast
  have "pid proc_graceful = 4711" "wait_result proc_hung = Inl TimeoutExpired"
    by (simp_all add: proc_graceful_def proc_hung_def)
  with g g1 g2 h1 show ?thesis by simp
qed

text \<open>
  Claim C10: the stop operation never raises an error to its caller. Whatever errors the
  terminate call, the bounded wait and the kill call raise, the operation returns normally;
  without a handle it returns at once and does nothing.
\<close>

theorem terminate_process_never_raises:
  "(\<forall>p. po = Some p \<longrightarrow> errors_only p) \<Longrightarrow>
   fst (terminate_process po tr) = Inr () \<and>
   (po = None \<longrightarrow> snd (terminate_process po tr) = tr)"
  by (cases po) (simp_all add: fst_terminate_process, simp add: terminate_process_def)

text \<open>On the sample handle all three calls raise: the signals fail and the wait times out.\<close>

lemma terminate_process_stubborn:
  "terminate_process (Some proc_stubborn) [] =
     (Inr (), [Terminate 4712, OsKill 4712 SIGTERM, Kill 4712, OsKill 4712 SIGKILL])"
  by (simp add: stop_defs proc_stubborn_def)

theorem terminate_process_never_raises_witness:
  "errors_only proc_stubborn \<and>
   fst (terminate_process (Some proc_stubborn) []) = Inr () \<and>
   fst (terminate_process None []) = Inr () \<and>
   snd (terminate_process None []) = []"
  using terminate_process_never_raises [of "Some proc_stubborn" "[]"]
    terminate_process_never_raises [of None "[]"]
  by (simp add: errors_only_def proc_stubborn_def)

section \<open>Properties of the secret generation\<close>

lemma starts_with_iff: "starts_with s sub \<longleftrightarrow> (\<exists>v. s = sub @ v)"
  by (induction s sub rule: starts_with.induct) auto

text \<open>The test \<^verbatim>\<open>sub in s\<close> holds exactly when \<open>sub\<close> is a contiguous part of \<open>s\<close>.\<close>

lemma contains_iff: "contains s sub \<longleftrightarrow> (\<exists>u v. s = u @ sub @ v)"
proof (induction s)
  case Nil
  then show ?case by auto
next
  case (Cons x xs)
  show ?case
  proof
    assume "contains (x # xs) sub"
    then consider "starts_with (x # xs) sub" | "contains xs sub" by auto
    then show "\<exists>u v. x # xs = u @ sub @ v"
    proof cases
      case 1
      then obtain v where "x # xs = sub @ v" by (auto simp: starts_with_iff)
      then have "x # xs = [] @ sub @ v" by simp
      then show ?thesis by blast
    next
      case 2
      then obtain u v where "xs = u @ sub @ v" using Cons.IH by auto
      then have "x # xs = (x # u) @ sub @ v" by simp
      then show ?thesis by blast
    qed
  next
    assume "\<exists>u v. x # xs = u @ sub @ v"
    then obtain u v where uv: "x # xs = u @ sub @ v" by blast
    show "contains (x # xs) sub"
    proof (cases u)
      case Nil
      with uv have "starts_with (x # xs) sub" by (auto simp: starts_with_iff)
      then show ?thesis by simp
    next
      case (Cons y u')
      with uv have "xs = u' @ sub @ v" by simp
      then have "contains xs sub" using Cons.IH by blast
      then show ?thesis by simp
    qed
  qed
qed

lemma str_16: "str 16 = ''16''"
  by (simp add: str_def str_nat.simps digit_char_def)

lemma str_32: "str 32 = ''32''"
  by (simp add: str_def str_nat.simps digit_char_def)

text \<open>
  Claim C8: for every method, the secret is what the tool prints, without the surrounding
  whitespace, on \<^verbatim>\<open>openssl rand -base64 16\<close> (16 random bytes, 128 bits) when the method
  name contains \<^verbatim>\<open>128\<close>, and on \<^verbatim>\<open>openssl rand -base64 32\<close> (32 random bytes, 256 bits)
  otherwise. That one command is all the operation does; when the command fails, its
  exception is raised and there is no secret.
\<close>

theorem get_pwd_for_method_bits:
  "((\<exists>u v. method = u @ ''128'' @ v) \<longrightarrow>
      get_pwd_for_method (Inr answer) method tr =
        (Inr (strip answer), tr @ [CheckOutput [OPENSSL, ''rand'', ''-base64'', ''16'']]) \<and>
      get_pwd_for_method (Inl e) method tr =
        (Inl e, tr @ [CheckOutput [OPENSSL, ''rand'', ''-base64'', ''16'']]) \<and>
      snd (get_pwd_for_method out method tr) =
        tr @ [CheckOutput [OPENSSL, ''rand'', ''-base64'', ''16'']]) \<and>
   (\<not> (\<exists>u v. method = u @ ''128'' @ v) \<longrightarrow>
      get_pwd_for_method (Inr answer) method tr =
        (Inr (strip answer), tr @ [CheckOutput [OPENSSL, ''rand'', ''-base64'', ''32'']]) \<and>
      get_pwd_for_method (Inl e) method tr =
        (Inl e, tr @ [CheckOutput [OPENSSL, ''rand'', ''-base64'', ''32'']]) \<and>
      snd (get_pwd_for_method out method tr) =
        tr @ [CheckOutput [OPENSSL, ''rand'', ''-base64'', ''32'']]) \<and>
   128 div 8 = (16::int) \<and> 256 div 8 = (32::int)"
  unfolding contains_iff [symmetric]
  by (simp add: get_pwd_for_method_def gen_password_def str_16 str_32 Let_def split: sum.split)

theorem get_pwd_for_method_bits_witness:
  "get_pwd_for_method (Inr (''c2VjcmV0'' @ [CHR 0x0A])) ''aes-128-gcm'' [] =
     (Inr ''c2VjcmV0'', [CheckOutput [OPENSSL, ''rand'', ''-base64'', ''16'']]) \<and>
   get_pwd_for_method (Inr (''c2VjcmV0'' @ [CHR 0x0A])) ''aes-256-gcm'' [] =
     (Inr ''c2VjcmV0'', [CheckOutput [OPENSSL, ''rand'', ''-base64'', ''32'']]) \<and>
   get_pwd_for_method (Inl (CalledProcessError 1 [])) ''aes-256-gcm'' [] =
     (Inl (CalledProcessError 1 []), [CheckOutput [OPENSSL, ''rand'', ''-base64'', ''32'']])"
proof -
  have a: "\<exists>u v. ''aes-128-gcm'' = u @ ''128'' @ v"
    unfolding contains_iff [symmetric] by simp
  have b: "\<not> (\<exists>u v. ''aes-256-gcm'' = u @ ''128'' @ v)"
    unfolding contains_iff [symmetric] by simp
  have st: "strip (''c2VjcmV0'' @ [CHR 0x0A]) = ''c2VjcmV0''"
    by (simp add: strip_def is_space_def)
  note A = get_pwd_for_method_bits
      [of "''aes-128-gcm''" "''c2VjcmV0'' @ [CHR 0x0A]" "[]"]
  note B = get_pwd_for_method_bits
      [of "''aes-256-gcm''" "''c2VjcmV0'' @ [CHR 0x0A]" "[]" "CalledProcessError 1 []"]
  from A a have a1: "get_pwd_for_method (Inr (''c2VjcmV0'' @ [CHR 0x0A])) ''aes-128-gcm'' [] =
      (Inr (strip (''c2VjcmV0'' @ [CHR 0x0A])),
       [] @ [CheckOutput [OPENSSL, ''rand'', ''-base64'', ''16'']])"
    by blast
  from B b have b1: "get_pwd_for_method (Inr (''c2VjcmV0'' @ [CHR 0x0A])) ''aes-256-gcm'' [] =
      (Inr (strip (''c2VjcmV0'' @ [CHR 0x0A])),
       [] @ [CheckOutput [OPENSSL, ''rand'', ''-base64'', ''32'']])"
    and b2: "get_pwd_for_method (Inl (CalledProcessError 1 [])) ''aes-256-gcm'' [] =
      (Inl (CalledProcessError 1 []), [] @ [CheckOutput [OPENSSL, ''rand'', ''-base64'', ''32'']])"
    by blast+
  from a1 b1 b2 show ?thesis unfolding st by simp
qed

section \<open>Properties of the stream server\<close>

lemma body_size_replicate: "body_size (replicate m chunk) = m * 1048576"
  by (induction m) (simp_all add: body_size_def length_chunk)

lemma body_size_append: "body_size (xs @ ys) = body_size xs + body_size ys"
  by (simp add: body_size_def)

lemma MAX_TEST_BYTES_chunks: "MAX_TEST_BYTES = 8192 * 1048576"
  by (simp add: MAX_TEST_BYTES_def)

text \<open>
  The loop invariant: after \<open>n\<close> rounds the body consists of \<open>n\<close> whole chunks. The loop
  can only end normally with the ceiling reached exactly.
\<close>

lemma stream_loop_shape:
  assumes "sent = n * 1048576" and "out = replicate n chunk" and "n \<le> 8192"
    and "stream_loop c sent out = (r, out')"
  shows "\<exists>m rest. out' = replicate m chunk @ rest \<and>
           (rest = [] \<or> (\<exists>k. rest = [take k chunk])) \<and>
           m * 1048576 + body_size rest \<le> MAX_TEST_BYTES \<and>
           (\<forall>total. r = Inr total \<longrightarrow> rest = [] \<and> m = 8192 \<and> total = MAX_TEST_BYTES)"
  using assms
proof (induction c sent out arbitrary: n rule: stream_loop.induct)
  case (1 c sent out)
  show ?case
  proof (cases "sent < MAX_TEST_BYTES")
    case False
    with "1.prems" have n: "n = 8192" by (simp add: MAX_TEST_BYTES_chunks)
    from False "1.prems"(4) have "r = Inr sent" "out' = out"
      by (simp_all add: stream_loop.simps [of c sent out])
    with n "1.prems" have "out' = replicate 8192 chunk @ []" "r = Inr MAX_TEST_BYTES"
      by (simp_all add: MAX_TEST_BYTES_chunks)
    then show ?thesis 
      by (intro exI [of _ 8192] exI [of _ "[]"]) (simp add: MAX_TEST_BYTES_chunks body_size_def)
  next
    case True
    with "1.prems" have n: "n < 8192" by (simp add: MAX_TEST_BYTES_chunks)
    show ?thesis
    proof (cases "write_result c sent")
      case (Raised e k)
      with True "1.prems"(4) have "r = Inl e" "out' = out @ [take k chunk]"
        by (simp_all add: stream_loop.simps [of c sent out])
      moreover have "n * 1048576 + body_size [take k chunk] \<le> MAX_TEST_BYTES"
        using n by (simp add: body_size_def length_chunk MAX_TEST_BYTES_chunks)
      ultimately show ?thesis using "1.prems"(2)
        by (intro exI [of _ n] exI [of _ "[take k chunk]"]) auto
    next
      case Written
      show ?thesis
      proof (cases "flush_result c sent")
        case (Some e)
        with Written True "1.prems"(4) have "r = Inl e" "out' = out @ [chunk]"
          by (simp_all add: stream_loop.simps [of c sent out])
        then have "out' = replicate (Suc n) chunk @ []" "r = Inl e"
          using "1.prems"(2) by (simp_all add: replicate_append_same)
        moreover have "Suc n * 1048576 + body_size [] \<le> MAX_TEST_BYTES"
          using n by (simp add: body_size_def MAX_TEST_BYTES_chunks)
        ultimately show ?thesis
          by (intro exI [of _ "Suc n"] exI [of _ "[]"]) auto
      next
        case None
        with Written True "1.prems"(4)
        have rec: "stream_loop c (sent + length chunk) (out @ [chunk]) = (r, out')"
          by (simp add: stream_loop.simps [of c sent out])
        have a: "sent + length chunk = Suc n * 1048576"
          using "1.prems"(1) by (simp add: length_chunk)
        have b: "out @ [chunk] = replicate (Suc n) chunk"
          using "1.prems"(2) by (simp add: replicate_append_same)
        have c: "Suc n \<le> 8192" using n by simp
        show ?thesis
          by (rule "1.IH" [OF True Written None a b c rec])
      qed
    qed
  qed
qed

text \<open>
  As long as the writes and the flushes succeed, the loop goes on: after \<open>n\<close> good rounds
  it stands at \<open>n\<close> chunks sent.
\<close>

lemma stream_loop_prefix:
  assumes "n \<le> 8192"
    and "\<forall>k<n. write_result c (k * 1048576) = Written \<and> flush_result c (k * 1048576) = None"
  shows "stream_loop c 0 [] = stream_loop c (n * 1048576) (replicate n chunk)"
  using assms
proof (induction n)
  case 0
  show ?case by simp
next
  case (Suc n)
  have IH: "stream_loop c 0 [] = stream_loop c (n * 1048576) (replicate n chunk)"
    using Suc by simp
  have lt: "n * 1048576 < MAX_TEST_BYTES"
    using Suc.prems(1) by (simp add: MAX_TEST_BYTES_chunks)
  have w: "write_result c (n * 1048576) = Written" and f: "flush_result c (n * 1048576) = None"
    using Suc.prems(2) by simp_all
  have "stream_loop c (n * 1048576) (replicate n chunk) =
      stream_loop c (n * 1048576 + length chunk) (replicate n chunk @ [chunk])"
    using lt w f by (simp add: stream_loop.simps [of c "n * 1048576"])
  also have "\<dots> = stream_loop c (Suc n * 1048576) (replicate (Suc n) chunk)"
    by (simp add: length_chunk replicate_append_same add.commute)
  finally show ?case using IH by simp
qed

lemma body_do_GET:
  "head_result c = None \<Longrightarrow> body (do_GET c BENCH_PATH) = snd (stream_loop c 0 [])"
  by (simp add: do_GET_def Let_def split: prod.split sum.split)

text \<open>The body after \<open>n\<close> good rounds, by what happens next.\<close>

lemma do_GET_body_rounds:
  assumes "head_result c = None" and "n \<le> 8192"
    and "\<forall>k<n. write_result c (k * 1048576) = Written \<and> flush_result c (k * 1048576) = None"
  shows "(n = 8192 \<longrightarrow> body (do_GET c BENCH_PATH) = replicate 8192 chunk) \<and>
         (n < 8192 \<and> write_result c (n * 1048576) = Raised e j \<longrightarrow>
            body (do_GET c BENCH_PATH) = replicate n chunk @ [take j chunk]) \<and>
         (n < 8192 \<and> write_result c (n * 1048576) = Written \<and>
          flush_result c (n * 1048576) = Some e \<longrightarrow>
            body (do_GET c BENCH_PATH) = replicate (Suc n) chunk)"
proof -
  have bd: "body (do_GET c BENCH_PATH) = snd (stream_loop c (n * 1048576) (replicate n chunk))"
    using body_do_GET [OF assms(1)] stream_loop_prefix [OF assms(2,3)] by simp
  show ?thesis
  proof (intro conjI impI)
    assume n: "n = 8192"
    then have "\<not> n * 1048576 < MAX_TEST_BYTES" by (simp add: MAX_TEST_BYTES_chunks)
    then have "snd (stream_loop c (n * 1048576) (replicate n chunk)) = replicate n chunk"
      by (simp add: stream_loop.simps [of c "n * 1048576"])
    with bd n show "body (do_GET c BENCH_PATH) = replicate 8192 chunk" by simp
  next
    assume a: "n < 8192 \<and> write_result c (n * 1048576) = Raised e j"
    then have "n * 1048576 < MAX_TEST_BYTES" by (simp add: MAX_TEST_BYTES_chunks)
    with a have "snd (stream_loop c (n * 1048576) (replicate n chunk)) =
        replicate n chunk @ [take j chunk]"
      by (simp add: stream_loop.simps [of c "n * 1048576"])
    with bd show "body (do_GET c BENCH_PATH) = replicate n chunk @ [take j chunk]" by simp
  next
    assume "n < 8192 \<and> write_result c (n * 1048576) = Written \<and>
          flush_result c (n * 1048576) = Some e"
    then have a: "n * 1048576 < MAX_TEST_BYTES" "write_result c (n * 1048576) = Written"
        "flush_result c (n * 1048576) = Some e"
      by (simp_all add: MAX_TEST_BYTES_chunks)
    then have "snd (stream_loop c (n * 1048576) (replicate n chunk)) =
        replicate n chunk @ [chunk]"
      by (simp add: stream_loop.simps [of c "n * 1048576"])
    with bd show "body (do_GET c BENCH_PATH) = replicate (Suc n) chunk"
      by (simp add: replicate_append_same)
  qed
qed

text \<open>
  Claim C2: on a GET request for the bench path the handler answers with status 200 and
  the content type \<^verbatim>\<open>application/octet-stream\<close>, and then writes the chunk of 1 MiB
  again and again until the ceiling is reached or the connection fails. The body on the
  wire is what these writes delivered: after \<open>n\<close> rounds without a failure it is the full
  8192 chunks, \<open>MAX_TEST_BYTES\<close> bytes, when \<open>n\<close> is 8192; it is \<open>n\<close> chunks and the part of
  the next that went out when the next write fails; it is \<open>n + 1\<close> chunks when the next
  flush fails; it is empty when the response head could not be sent. In every case it is a
  sequence of whole chunks, followed by at most one part of a chunk, of at most
  \<open>MAX_TEST_BYTES\<close> bytes in all, whatever the connection does. On any other path the
  handler answers 404 and sends no payload.
\<close>

theorem do_GET_response:
  "length chunk = 1024 * 1024 \<and>
   (path = BENCH_PATH \<longrightarrow>
      status (do_GET c path) = 200 \<and>
      headers (do_GET c path) = [(''Content-Type'', ''application/octet-stream'')] \<and>
      (\<exists>m rest. body (do_GET c path) = replicate m chunk @ rest \<and>
                 (rest = [] \<or> (\<exists>k. rest = [take k chunk]))) \<and>
      body_size (body (do_GET c path)) \<le> MAX_TEST_BYTES \<and>
      (head_result c = None \<and> n \<le> 8192 \<and>
       (\<forall>k<n. write_result c (k * 1048576) = Written \<and> flush_result c (k * 1048576) = None) \<longrightarrow>
         (n = 8192 \<longrightarrow>
            body (do_GET c path) = replicate 8192 chunk \<and>
            body_size (body (do_GET c path)) = MAX_TEST_BYTES) \<and>
         (n < 8192 \<and> write_result c (n * 1048576) = Raised e j \<longrightarrow>
            body (do_GET c path) = replicate n chunk @ [take j chunk]) \<and>
         (n < 8192 \<and> write_result c (n * 1048576) = Written \<and>
          flush_result c (n * 1048576) = Some e \<longrightarrow>
            body (do_GET c path) = replicate (Suc n) chunk)) \<and>
      (head_result c = Some e' \<longrightarrow> body (do_GET c path) = [])) \<and>
   (path \<noteq> BENCH_PATH \<longrightarrow>
      status (do_GET c path) = 404 \<and> body (do_GET c path) = [])"
proof (intro conjI)
  show "length chunk = 1024 * 1024" by (simp add: length_chunk)
next
  show "path \<noteq> BENCH_PATH \<longrightarrow> status (do_GET c path) = 404 \<and> body (do_GET c path) = []"
    by (simp add: do_GET_def)
next
  show "path = BENCH_PATH \<longrightarrow>
      status (do_GET c path) = 200 \<and>
      headers (do_GET c path) = [(''Content-Type'', ''application/octet-stream'')] \<and>
      (\<exists>m rest. body (do_GET c path) = replicate m chunk @ rest \<and>
                 (rest = [] \<or> (\<exists>k. rest = [take k chunk]))) \<and>
      body_size (body (do_GET c path)) \<le> MAX_TEST_BYTES \<and>
      (head_result c = None \<and> n \<le> 8192 \<and>
       (\<forall>k<n. write_result c (k * 1048576) = Written \<and> flush_result c (k * 1048576) = None) \<longrightarrow>
         (n = 8192 \<longrightarrow>
            body (do_GET c path) = replicate 8192 chunk \<and>
            body_size (body (do_GET c path)) = MAX_TEST_BYTES) \<and>
         (n < 8192 \<and> write_result c (n * 1048576) = Raised e j \<longrightarrow>
            body (do_GET c path) = replicate n chunk @ [take j chunk]) \<and>
         (n < 8192 \<and> write_result c (n * 1048576) = Written \<and>
          flush_result c (n * 1048576) = Some e \<longrightarrow>
            body (do_GET c path) = replicate (Suc n) chunk)) \<and>
      (head_result c = Some e' \<longrightarrow> body (do_GET c path) = [])"
  proof (intro impI conjI)
    assume p: "path = BENCH_PATH"
    obtain r out where lo: "stream_loop c 0 [] = (r, out)" by (cases "stream_loop c 0 []")
    from stream_loop_shape [of 0 0 "[]" c r out] lo
    obtain m rest where sh: "out = replicate m chunk @ rest"
        "rest = [] \<or> (\<exists>k. rest = [take k chunk])"
        "m * 1048576 + body_size rest \<le> MAX_TEST_BYTES"
      by auto
    have bd: "body (do_GET c path) = [] \<or> body (do_GET c path) = out"
      using p lo by (simp add: do_GET_def Let_def split: option.split sum.split)
    show "status (do_GET c path) = 200"
      using p by (simp add: do_GET_def Let_def split: option.split sum.split prod.split)
    show "headers (do_GET c path) = [(''Content-Type'', ''application/octet-stream'')]"
      using p by (simp add: do_GET_def Let_def split: option.split sum.split prod.split)
    from bd show "\<exists>m rest. body (do_GET c path) = replicate m chunk @ rest \<and>
                   (rest = [] \<or> (\<exists>k. rest = [take k chunk]))"
    proof
      assume "body (do_GET c path) = []"
      then have "body (do_GET c path) = replicate 0 chunk @ []" by simp
      then show ?thesis by blast
    next
      assume "body (do_GET c path) = out"
      with sh show ?thesis by blast
    qed
    from bd show "body_size (body (do_GET c path)) \<le> MAX_TEST_BYTES"
    proof
      assume "body (do_GET c path) = []"
      then show ?thesis by (simp add: body_size_def)
    next
      assume "body (do_GET c path) = out"
      with sh show ?thesis by (simp add: body_size_append body_size_replicate)
    qed
    {
      assume "head_result c = Some e'"
      then show "body (do_GET c path) = []" using p by (simp add: do_GET_def)
    }
    {
      assume H: "head_result c = None \<and> n \<le> 8192 \<and>
        (\<forall>k<n. write_result c (k * 1048576) = Written \<and> flush_result c (k * 1048576) = None)"
      then have h: "head_result c = None" and n: "n \<le> 8192"
        and ok: "\<forall>k<n. write_result c (k * 1048576) = Written \<and>
                       flush_result c (k * 1048576) = None"
        by simp_all
      note R = do_GET_body_rounds [OF h n ok, of e j]
      {
        assume "n = 8192"
        with R show "body (do_GET c path) = replicate 8192 chunk" using p by simp
        then show "body_size (body (do_GET c path)) = MAX_TEST_BYTES"
          by (simp add: body_size_replicate MAX_TEST_BYTES_chunks)
      }
      {
        assume "n < 8192 \<and> write_result c (n * 1048576) = Raised e j"
        with R show "body (do_GET c path) = replicate n chunk @ [take j chunk]" using p by simp
      }
      {
        assume "n < 8192 \<and> write_result c (n * 1048576) = Written \<and>
          flush_result c (n * 1048576) = Some e"
        with R show "body (do_GET c path) = replicate (Suc n) chunk" using p by simp
      }
    }
  qed
qed

text \<open>The handler on the sample connection: the reset is swallowed without a message.\<close>

lemma do_GET_conn_reset:
  "body (do_GET conn_reset ''/bench'') = [chunk, chunk, chunk, take 100 chunk] \<and>
   raised (do_GET conn_reset ''/bench'') = None \<and> printed (do_GET conn_reset ''/bench'') = []"
  by (simp add: do_GET_def BENCH_PATH_def conn_reset_def stream_loop.simps MAX_TEST_BYTES_def length_chunk)

text \<open>
  When the connection never fails, the loop writes exactly 8192 chunks: the ceiling is
  reached and not passed.
\<close>

lemma stream_loop_no_failure:
  "\<forall>n. write_result c n = Written \<Longrightarrow> \<forall>n. flush_result c n = None \<Longrightarrow>
   \<exists>total. fst (stream_loop c sent out) = Inr total"
proof (induction c sent out rule: stream_loop.induct)
  case (1 c sent out)
  show ?case
  proof (cases "sent < MAX_TEST_BYTES")
    case True
    have w: "write_result c sent = Written" and f: "flush_result c sent = None"
      using "1.prems" by simp_all
    from "1.IH" [OF True w f "1.prems"] obtain total where
      "fst (stream_loop c (sent + length chunk) (out @ [chunk])) = Inr total" by blast
    then show ?thesis using True w f by (simp add: stream_loop.simps [of c sent out])
  next
    case False
    then show ?thesis by (simp add: stream_loop.simps [of c sent out])
  qed
qed

lemma do_GET_full_stream:
  assumes "head_result c = None" and "\<forall>n. write_result c n = Written"
    and "\<forall>n. flush_result c n = None"
  shows "body (do_GET c BENCH_PATH) = replicate 8192 chunk \<and>
         body_size (body (do_GET c BENCH_PATH)) = MAX_TEST_BYTES"
proof -
  obtain r out where lo: "stream_loop c 0 [] = (r, out)" by (cases "stream_loop c 0 []")
  from stream_loop_no_failure [OF assms(2,3), of 0 "[]"] lo obtain total where r: "r = Inr total"
    by auto
  from stream_loop_shape [of 0 0 "[]" c r out] lo r have "out = replicate 8192 chunk" by auto
  then have "body (do_GET c BENCH_PATH) = replicate 8192 chunk"
    using lo r assms(1) by (simp add: do_GET_def)
  then show ?thesis by (simp add: body_size_replicate MAX_TEST_BYTES_chunks)
qed

theorem do_GET_response_witness:
  "status (do_GET conn_reset ''/bench'') = 200 \<and>
   body_size (body (do_GET conn_reset ''/bench'')) \<le> MAX_TEST_BYTES \<and>
   write_result conn_reset (3 * 1048576) = Raised ConnectionResetError 100 \<and>
   body (do_GET conn_reset ''/bench'') = replicate 3 chunk @ [take 100 chunk] \<and>
   body (do_GET conn_patient ''/bench'') = replicate 8192 chunk \<and>
   body_size (body (do_GET conn_patient ''/bench'')) = MAX_TEST_BYTES \<and>
   status (do_GET conn_reset ''/index.html'') = 404 \<and>
   body (do_GET conn_reset ''/index.html'') = []"
proof -
  have b: "''/bench'' = BENCH_PATH" "''/index.html'' \<noteq> BENCH_PATH"
    by (simp_all add: BENCH_PATH_def)
  have r: "head_result conn_reset = None \<and> (3::nat) \<le> 8192 \<and>
      (\<forall>k<3. write_result conn_reset (k * 1048576) = Written \<and>
              flush_result conn_reset (k * 1048576) = None)"
    by (simp add: conn_reset_def)
  have r3: "(3::nat) < 8192 \<and>
      write_result conn_reset (3 * 1048576) = Raised ConnectionResetError 100"
    by (simp add: conn_reset_def)
  have q: "head_result conn_patient = None \<and> (8192::nat) \<le> 8192 \<and>
      (\<forall>k<8192. write_result conn_patient (k * 1048576) = Written \<and>
                 flush_result conn_patient (k * 1048576) = None)"
    by (simp add: conn_patient_def)
  note A = do_GET_response
      [where path = "''/bench''" and c = conn_reset and n = 3 and e = ConnectionResetError
         and j = 100]
  note B = do_GET_response [where path = "''/bench''" and c = conn_patient and n = 8192]
  note C = do_GET_response [where path = "''/index.html''" and c = conn_reset]
  from A b(1) r r3 have a1: "status (do_GET conn_reset ''/bench'') = 200"
    and a2: "body_size (body (do_GET conn_reset ''/bench'')) \<le> MAX_TEST_BYTES"
    and a3: "body (do_GET conn_reset ''/bench'') = replicate 3 chunk @ [take 100 chunk]"
    by blast+
  from B b(1) q have b1: "body (do_GET conn_patient ''/bench'') = replicate 8192 chunk"
    and b2: "body_size (body (do_GET conn_patient ''/bench'')) = MAX_TEST_BYTES"
    by blast+
  from C b(2) have c1: "status (do_GET conn_reset ''/index.html'') = 404"
    and c2: "body (do_GET conn_reset ''/index.html'') = []"
    by blast+
  from a1 a2 a3 b1 b2 c1 c2 r3 show ?thesis by blast
qed

section \<open>Properties of the benchmark loop\<close>

lemma get_pwd_for_method_ok:
  "get_pwd_for_method (Inr t) m tr = (Inr (strip t), tr @ [CheckOutput (password_cmd m)])"
  by (simp add: get_pwd_for_method_def gen_password_def password_cmd_def str_16 str_32)

lemma iter_server_down:
  assumes "openssl_out r = Inr t" and "server_write r = None" and "client_write r = None"
    and "server_spawn r = Inr p" and "poll_result p = Some rc"
  shows "bench_iter r wd m s tr =
     (Inr (s\<lparr>results := results s @ [(m, None)], sp := sp s + 1, cp := cp s + 1\<rparr>),
      tr @ setup_events wd m (strip t) s @
        [Spawn (server_cmd wd m) (pid p), Print (MsgStartFailed ''server'' (stderr_text p))])"
  using assms
  by (simp add: bench_iter_def bind_res_def get_pwd_for_method_ok write_cfg_def
      start_singbox_def setup_events_def server_cmd_def split_def Let_def)

lemma iter_client_down:
  assumes "openssl_out r = Inr t" and "server_write r = None" and "client_write r = None"
    and "server_spawn r = Inr ps" and "poll_result ps = None" and "errors_only ps"
    and "client_spawn r = Inr pc" and "poll_result pc = Some rc"
  shows "bench_iter r wd m s tr =
     (Inr (s\<lparr>results := results s @ [(m, None)], sp := sp s + 1, cp := cp s + 1\<rparr>),
      tr @ setup_events wd m (strip t) s @
        [Spawn (server_cmd wd m) (pid ps), Spawn (client_cmd wd m) (pid pc),
         Print (MsgStartFailed ''client'' (stderr_text pc))] @ stop_calls ps)"
  using assms
  by (simp add: bench_iter_def bind_res_def get_pwd_for_method_ok write_cfg_def
      start_singbox_def setup_events_def server_cmd_def client_cmd_def split_def Let_def
      terminate_process_eq)

lemma iter_measured:
  assumes "openssl_out r = Inr t" and "server_write r = None" and "client_write r = None"
    and "server_spawn r = Inr ps" and "poll_result ps = None" and "errors_only ps"
    and "client_spawn r = Inr pc" and "poll_result pc = None" and "errors_only pc"
    and "run_curl (curl_out r) (cp s) tr1 = (Inr speed, tr2)"
    and "tr1 = tr @ setup_events wd m (strip t) s @
        [Spawn (server_cmd wd m) (pid ps), Spawn (client_cmd wd m) (pid pc)]"
  shows "bench_iter r wd m s tr =
     (Inr (s\<lparr>results := results s @ [(m, speed)], sp := sp s + 2, cp := cp s + 2\<rparr>),
      tr2 @ [Print (case speed of Some v \<Rightarrow> MsgSpeed v (gbps_of v) | None \<Rightarrow> MsgFailed)] @
        stop_calls pc @ stop_calls ps)"
  using assms
  by (simp add: bench_iter_def bind_res_def get_pwd_for_method_ok write_cfg_def
      start_singbox_def setup_events_def server_cmd_def client_cmd_def split_def Let_def
      terminate_process_eq split: option.split)


lemma run_curl_failed:
  "measurement_failed out \<Longrightarrow>
   \<exists>evs. run_curl out port tr = (Inr None, tr @ CheckOutput (curl_cmd port) # evs)"
  by (auto simp: run_curl_def curl_failed_def measurement_failed_def split: sum.splits)

lemma run_curl_total:
  "(case out of Inl e \<Rightarrow> is_Exception e | Inr t \<Rightarrow> True) \<Longrightarrow>
   \<exists>speed tr2. run_curl out port tr = (Inr speed, tr2)"
  by (cases out; cases "py_float (strip (projr out))")
     (simp_all add: run_curl_def curl_failed_def Let_def)

lemma run_curl_number:
  "py_float (strip text) = Some x \<Longrightarrow>
   run_curl (Inr text) port tr =
     (Inr (Some (fdiv x (1024 * 1024))), tr @ [CheckOutput (curl_cmd port)])"
  by (simp add: run_curl_def)

lemma iter_shape:
  assumes "fst (bench_iter r wd m s tr) = Inr s'"
  shows "(\<exists>v. results s' = results s @ [(m, v)]) \<and>
         (started (server_spawn r) \<and> started (client_spawn r) \<longrightarrow>
            sp s' = sp s + 2 \<and> cp s' = cp s + 2) \<and>
         (\<not> (started (server_spawn r) \<and> started (client_spawn r)) \<longrightarrow>
            sp s' = sp s + 1 \<and> cp s' = cp s + 1)"
proof -
  obtain pw where pw: "get_pwd_for_method (openssl_out r) m (tr @ [Print (MsgHeader m)]) = pw"
    by simp
  show ?thesis
    using assms unfolding bench_iter_def pw
    by (auto simp: bind_res_def write_cfg_def start_singbox_def started_def split_def Let_def
        split: sum.splits option.splits prod.splits if_splits)
qed

lemma iter_total:
  assumes "no_uncaught r"
  shows "\<exists>s' tr'. bench_iter r wd m s tr = (Inr s', tr')"
proof -
  from assms obtain t ps pc where su: "openssl_out r = Inr t" "server_write r = None"
      "client_write r = None" "server_spawn r = Inr ps" "errors_only ps"
      "client_spawn r = Inr pc" "errors_only pc"
    and cu: "case curl_out r of Inl e \<Rightarrow> is_Exception e | Inr t \<Rightarrow> True"
    by (auto simp: no_uncaught_def split: sum.splits)
  show ?thesis
  proof (cases "poll_result ps")
    case (Some rc)
    from iter_server_down [OF su(1-4) Some] show ?thesis by blast
  next
    case None
    show ?thesis
    proof (cases "poll_result pc")
      case (Some rc)
      from iter_client_down [OF su(1-4) None su(5,6) Some] show ?thesis by blast
    next
      case pcNone: None
      from run_curl_total [OF cu] obtain speed tr2 where
        "run_curl (curl_out r) (cp s) (tr @ setup_events wd m (strip t) s @
           [Spawn (server_cmd wd m) (pid ps), Spawn (client_cmd wd m) (pid pc)]) = (Inr speed, tr2)"
        by blast
      from iter_measured [OF su(1-4) None su(5,6) pcNone su(7) this refl]
      show ?thesis by blast
    qed
  qed
qed

lemma bench_loop_append:
  "bench_loop env i wd (xs @ ys) s tr =
     (case bench_loop env i wd xs s tr of
        (Inl e, tr') \<Rightarrow> (Inl e, tr')
      | (Inr s', tr') \<Rightarrow> bench_loop env (i + length xs) wd ys s' tr')"
  by (induction xs arbitrary: i s tr) (auto split: prod.splits sum.splits)

lemma bench_loop_shape:
  assumes "bench_loop env i wd ms s tr = (Inr s', tr')"
  shows "map fst (results s') = map fst (results s) @ ms \<and>
         sp s + int (length ms) \<le> sp s' \<and> sp s' \<le> sp s + 2 * int (length ms) \<and>
         sp s' - cp s' = sp s - cp s"
  using assms
proof (induction ms arbitrary: i s tr)
  case Nil
  then show ?case by simp
next
  case (Cons m ms)
  from Cons.prems obtain s1 tr1 where it: "bench_iter (env i) wd m s tr = (Inr s1, tr1)"
    and lo: "bench_loop env (Suc i) wd ms s1 tr1 = (Inr s', tr')"
    by (auto split: prod.splits sum.splits)
  from it have "fst (bench_iter (env i) wd m s tr) = Inr s1" by simp
  from iter_shape [OF this] have st: "map fst (results s1) = map fst (results s) @ [m]"
      "(sp s1 = sp s + 1 \<and> cp s1 = cp s + 1) \<or> (sp s1 = sp s + 2 \<and> cp s1 = cp s + 2)"
    by auto
  from Cons.IH [OF lo] st show ?case by auto
qed

lemma bench_loop_total:
  assumes "\<forall>k<length ms. no_uncaught (env (i + k))"
  shows "\<exists>s' tr'. bench_loop env i wd ms s tr = (Inr s', tr')"
  using assms
proof (induction ms arbitrary: i s tr)
  case Nil
  then show ?case by simp
next
  case (Cons m ms)
  from Cons.prems have "no_uncaught (env i)" by force
  from iter_total [OF this] obtain s1 tr1 where
    it: "bench_iter (env i) wd m s tr = (Inr s1, tr1)" by blast
  have "\<forall>k<length ms. no_uncaught (env (Suc i + k))"
    using Cons.prems by force
  from Cons.IH [OF this] obtain s' tr' where
    "bench_loop env (Suc i) wd ms s1 tr1 = (Inr s', tr')" by blast
  with it show ?case by simp
qed

lemma length_tests: "length tests = 6"
  by (simp add: tests_def)

text \<open>
  The exceptions that the loop does not catch end it: a failure of the secret generation
  or of a spawn leaves the loop body.
\<close>

lemma bench_iter_openssl_raises:
  "openssl_out r = Inl e \<Longrightarrow> fst (bench_iter r wd m s tr) = Inl e"
  by (simp add: bench_iter_def bind_res_def get_pwd_for_method_def gen_password_def)

lemma bench_iter_spawn_raises:
  "openssl_out r = Inr t \<Longrightarrow> server_write r = None \<Longrightarrow> client_write r = None \<Longrightarrow>
   server_spawn r = Inl e \<Longrightarrow> fst (bench_iter r wd m s tr) = Inl e"
  by (simp add: bench_iter_def bind_res_def get_pwd_for_method_ok write_cfg_def
      start_singbox_def split_def Let_def)

lemma main_results:
  assumes "\<forall>i<length tests. no_uncaught (env i)"
  shows "\<exists>rs tr'. main None env wd tr = (Inr rs, tr') \<and> map fst rs = tests"
proof -
  from assms have "\<forall>k<length tests. no_uncaught (env (0 + k))" by simp
  from bench_loop_total [OF this] obtain s' tr' where
    lo: "bench_loop env 0 wd tests init_bench (tr @ [HttpdStart HTTP_SERVER_PORT]) = (Inr s', tr')"
    by blast
  from bench_loop_shape [OF lo] have "map fst (results s') = tests"
    by (simp add: init_bench_def)
  with lo show ?thesis by (simp add: main_def)
qed

text \<open>
  Claim C3: whenever the loop over the fixed test list ends without an exception, the
  results hold exactly one entry per method, in the order of the list; and it does end so
  whenever no exception leaves a loop body. That hypothesis admits every startup failure
  (a process that has exited at the settle check) and every measurement failure in every
  iteration: none of them ends the loop.
\<close>

theorem results_one_per_method:
  "(bench_loop env 0 wd tests init_bench tr = (Inr s, tr1) \<longrightarrow>
      map fst (results s) = tests \<and> length (results s) = length tests) \<and>
   ((\<forall>i<length tests. no_uncaught (env i)) \<longrightarrow>
      (\<exists>s' tr'. bench_loop env 0 wd tests init_bench tr = (Inr s', tr') \<and>
           map fst (results s') = tests \<and> length (results s') = length tests))"
proof (intro conjI impI)
  assume lo: "bench_loop env 0 wd tests init_bench tr = (Inr s, tr1)"
  from bench_loop_shape [OF lo] show m: "map fst (results s) = tests"
    by (simp add: init_bench_def)
  then show "length (results s) = length tests" by (metis length_map)
next
  assume "\<forall>i<length tests. no_uncaught (env i)"
  then have "\<forall>k<length tests. no_uncaught (env (0 + k))" by simp
  from bench_loop_total [OF this] obtain s' tr' where
    lo: "bench_loop env 0 wd tests init_bench tr = (Inr s', tr')" by blast
  from bench_loop_shape [OF lo] have m: "map fst (results s') = tests"
    by (simp add: init_bench_def)
  then have "length (results s') = length tests" by (metis length_map)
  with lo m show "\<exists>s' tr'. bench_loop env 0 wd tests init_bench tr = (Inr s', tr') \<and>
           map fst (results s') = tests \<and> length (results s') = length tests" by blast
qed

lemma no_uncaught_env_mixed: "no_uncaught (env_mixed i)"
  by (simp add: env_mixed_def no_uncaught_def resp_garbled_def resp_server_down_def
      resp_timeout_def resp_client_down_def resp_measured_def errors_only_def
      proc_graceful_def proc_stubborn_def proc_exited_def)

text \<open>
  Claim C7: in one run, the port pairs of two iterations \<open>i < j\<close> are strictly increasing in
  both components, and no port of one is a port of the other, whatever happened (failed
  starts, failed measurements) in the iterations before.
\<close>

theorem ports_strictly_increasing:
  assumes "i < j" and "j < length tests"
    and "ports_at env wd tr i = Some (a, b)" and "ports_at env wd tr j = Some (c, d)"
  shows "a < c \<and> b < d \<and> a \<noteq> b \<and> a \<noteq> d \<and> b \<noteq> c"
proof -
  from assms(3) obtain si tri where
    li: "bench_loop env 0 wd (take i tests) init_bench tr = (Inr si, tri)"
    and ab: "a = sp si" "b = cp si"
    by (auto simp: ports_at_def split: prod.splits sum.splits)
  from assms(4) obtain sj trj where
    lj: "bench_loop env 0 wd (take j tests) init_bench tr = (Inr sj, trj)"
    and cd: "c = sp sj" "d = cp sj"
    by (auto simp: ports_at_def split: prod.splits sum.splits)
  have tk: "take j tests = take i tests @ drop i (take j tests)"
    using assms(1) by (metis append_take_drop_id less_imp_le_nat min.absorb1 take_take)
  have len_i: "length (take i tests) = i" using assms(1,2) by simp
  have len_d: "length (drop i (take j tests)) = j - i" using assms(1,2) by simp
  from lj have "bench_loop env 0 wd (take i tests @ drop i (take j tests)) init_bench tr = (Inr sj, trj)"
    using tk by simp
  then have rest: "bench_loop env i wd (drop i (take j tests)) si tri = (Inr sj, trj)"
    using li len_i by (simp add: bench_loop_append)
  from bench_loop_shape [OF li] len_i
  have i1: "20000 + int i \<le> sp si" "sp si \<le> 20000 + 2 * int i" "sp si - cp si = 5000"
    by (simp_all add: init_bench_def BASE_SERVER_PORT_def BASE_CLIENT_PORT_def)
  from bench_loop_shape [OF rest] len_d
  have j1: "sp si + int (j - i) \<le> sp sj" "sp sj \<le> sp si + 2 * int (j - i)"
      "sp sj - cp sj = sp si - cp si"
    by simp_all
  have "j < 6" using assms(2) by (simp add: length_tests)
  with assms(1) i1 j1 ab cd show ?thesis by auto
qed

lemmas float_defs = py_float_def strip_def is_space_def parse_abs_def parse_number_def parse_exponent_def
  is_digit_def digit_val_def nat_of_digits_def pow10_def to_lower_def skip_underscore_def

lemma py_float_sample: "py_float (strip (''12500000'' @ [CHR 0x0A])) = Some (Fin 12500000)"
  by (simp add: float_defs)

lemma py_float_12500000: "py_float ''12500000'' = Some (Fin 12500000)"
  by (simp add: float_defs)

lemma py_float_garbled: "py_float (strip ''n/a'') = None"
  by (simp add: float_defs)

lemma fst_iter_measured:
  "fst (bench_iter resp_measured wd m s tr) =
     Inr (s\<lparr>results := results s @ [(m, Some (Fin (12500000 / (1024 * 1024))))],
            sp := sp s + 2, cp := cp s + 2\<rparr>)"
proof -
  have rc: "run_curl (curl_out resp_measured) (cp s) tr1 =
      (Inr (Some (Fin (12500000 / (1024 * 1024)))), tr1 @ [CheckOutput (curl_cmd (cp s))])" for tr1
    using run_curl_number [OF py_float_sample] by (simp add: resp_measured_def)
  have "errors_only proc_graceful" "errors_only proc_stubborn"
    by (simp_all add: errors_only_def proc_graceful_def proc_stubborn_def)
  then show ?thesis
    using iter_measured [of resp_measured _ proc_graceful proc_stubborn s _ _ _ tr wd m, OF _ _ _ _ _ _ _ _ _ rc refl]
    by (simp add: resp_measured_def proc_graceful_def proc_stubborn_def)
qed

lemma fst_iter_garbled:
  "fst (bench_iter resp_garbled wd m s tr) =
     Inr (s\<lparr>results := results s @ [(m, None)], sp := sp s + 2, cp := cp s + 2\<rparr>)"
proof -
  have "measurement_failed (curl_out resp_garbled)"
    by (simp add: measurement_failed_def resp_garbled_def py_float_garbled)
  from run_curl_failed [OF this] obtain evs where
    rc: "run_curl (curl_out resp_garbled) (cp s) tr1 =
      (Inr None, tr1 @ CheckOutput (curl_cmd (cp s)) # evs tr1)" for tr1
    by metis
  have "errors_only proc_graceful" "errors_only proc_stubborn"
    by (simp_all add: errors_only_def proc_graceful_def proc_stubborn_def)
  then show ?thesis
    using iter_measured [of resp_garbled _ proc_graceful proc_stubborn s _ _ _ tr wd m, OF _ _ _ _ _ _ _ _ _ rc refl]
    by (simp add: resp_garbled_def resp_measured_def proc_graceful_def proc_stubborn_def)
qed

lemma fst_iter_timeout:
  "fst (bench_iter resp_timeout wd m s tr) =
     Inr (s\<lparr>results := results s @ [(m, None)], sp := sp s + 2, cp := cp s + 2\<rparr>)"
proof -
  have "measurement_failed (curl_out resp_timeout)"
    by (simp add: measurement_failed_def resp_timeout_def)
  from run_curl_failed [OF this] obtain evs where
    rc: "run_curl (curl_out resp_timeout) (cp s) tr1 =
      (Inr None, tr1 @ CheckOutput (curl_cmd (cp s)) # evs tr1)" for tr1
    by metis
  have "errors_only proc_graceful" "errors_only proc_stubborn"
    by (simp_all add: errors_only_def proc_graceful_def proc_stubborn_def)
  then show ?thesis
    using iter_measured [of resp_timeout _ proc_graceful proc_stubborn s _ _ _ tr wd m, OF _ _ _ _ _ _ _ _ _ rc refl]
    by (simp add: resp_timeout_def resp_measured_def proc_graceful_def proc_stubborn_def)
qed

lemma fst_iter_server_down:
  "fst (bench_iter resp_server_down wd m s tr) =
     Inr (s\<lparr>results := results s @ [(m, None)], sp := sp s + 1, cp := cp s + 1\<rparr>)"
  using iter_server_down [of resp_server_down _ proc_exited 1 wd m s tr]
  by (simp add: resp_server_down_def resp_measured_def proc_exited_def)

lemma fst_iter_client_down:
  "fst (bench_iter resp_client_down wd m s tr) =
     Inr (s\<lparr>results := results s @ [(m, None)], sp := sp s + 1, cp := cp s + 1\<rparr>)"
proof -
  have "errors_only proc_graceful"
    by (simp add: errors_only_def proc_graceful_def)
  then show ?thesis
    using iter_client_down [of resp_client_down _ proc_graceful proc_exited 1 wd m s tr]
    by (simp add: resp_client_down_def resp_measured_def proc_exited_def proc_graceful_def)
qed

lemma bench_loop_Cons_fst:
  "bench_loop env i wd (m # ms) s tr =
     (case fst (bench_iter (env i) wd m s tr) of
        Inl e \<Rightarrow> (Inl e, snd (bench_iter (env i) wd m s tr))
      | Inr s' \<Rightarrow> bench_loop env (Suc i) wd ms s' (snd (bench_iter (env i) wd m s tr)))"
  by (cases "bench_iter (env i) wd m s tr") (simp split: sum.split)

lemmas sample_iters = fst_iter_measured fst_iter_garbled fst_iter_timeout
  fst_iter_server_down fst_iter_client_down

lemma env_mixed_simps:
  "env_mixed 0 = resp_measured" "env_mixed (Suc 0) = resp_garbled"
  "env_mixed (Suc (Suc 0)) = resp_server_down" "env_mixed (Suc (Suc (Suc 0))) = resp_timeout"
  "env_mixed (Suc (Suc (Suc (Suc 0)))) = resp_client_down"
  "env_mixed (Suc (Suc (Suc (Suc (Suc 0))))) = resp_measured"
  by (simp_all add: env_mixed_def)

lemma sample_loop_2:
  "fst (bench_loop env_mixed 0 wd (take 2 tests) init_bench []) =
     Inr \<lparr>results = [(''none'', Some (Fin (12500000 / (1024 * 1024)))), (''aes-128-gcm'', None)],
          sp = 20004, cp = 15004\<rparr>"
  by (simp add: tests_def init_bench_def BASE_SERVER_PORT_def BASE_CLIENT_PORT_def
      bench_loop_Cons_fst env_mixed_simps sample_iters del: bench_loop.simps(2))

lemma sample_loop_3:
  "fst (bench_loop env_mixed 0 wd (take 3 tests) init_bench []) =
     Inr \<lparr>results = [(''none'', Some (Fin (12500000 / (1024 * 1024)))), (''aes-128-gcm'', None),
                     (''aes-256-gcm'', None)],
          sp = 20005, cp = 15005\<rparr>"
  by (simp add: tests_def init_bench_def BASE_SERVER_PORT_def BASE_CLIENT_PORT_def
      bench_loop_Cons_fst env_mixed_simps sample_iters del: bench_loop.simps(2))

lemma sample_loop_6:
  "fst (bench_loop env_mixed 0 wd tests init_bench []) =
     Inr \<lparr>results = [(''none'', Some (Fin (12500000 / (1024 * 1024)))), (''aes-128-gcm'', None),
                     (''aes-256-gcm'', None), (''chacha20-ietf-poly1305'', None),
                     (''2022-blake3-aes-128-gcm'', None),
                     (''2022-blake3-aes-256-gcm'', Some (Fin (12500000 / (1024 * 1024))))],
          sp = 20010, cp = 15010\<rparr>"
  by (simp add: tests_def init_bench_def BASE_SERVER_PORT_def BASE_CLIENT_PORT_def
      bench_loop_Cons_fst env_mixed_simps sample_iters del: bench_loop.simps(2))

lemma fst_iter_server_down_sample:
  "fst (bench_iter resp_server_down ''/tmp/sb-bench-x'' ''aes-256-gcm'' init_bench []) =
     Inr \<lparr>results = [(''aes-256-gcm'', None)], sp = 20001, cp = 15001\<rparr>"
  by (simp add: fst_iter_server_down init_bench_def BASE_SERVER_PORT_def BASE_CLIENT_PORT_def)

text \<open>
  Claim C1, as stated: both port counters advance by 2 after every iteration, also after a
  failed one. In the source the two branches for a failed start add 1: starting from
  \<open>(20000, 15000)\<close>, an iteration whose server exits at once leaves \<open>(20001, 15001)\<close>.
\<close>

theorem port_stride_after_failed_start:
  "sp init_bench = 20000 \<and> cp init_bench = 15000 \<and>
   fst (bench_iter resp_server_down ''/tmp/sb-bench-x'' ''aes-256-gcm'' init_bench []) =
     Inr \<lparr>results = [(''aes-256-gcm'', None)], sp = 20001, cp = 15001\<rparr>"
  by (simp add: fst_iter_server_down_sample)
     (simp add: init_bench_def BASE_SERVER_PORT_def BASE_CLIENT_PORT_def)

text \<open>
  Claim C1, amended: after every iteration that completes, both counters have advanced by
  the same amount, by 2 when both processes started (whether the measurement succeeded or
  failed) and by 1 when the server or the client did not start.
\<close>

theorem port_stride_by_outcome:
  assumes "fst (bench_iter r wd m s tr) = Inr s'"
  shows "(started (server_spawn r) \<and> started (client_spawn r) \<longrightarrow>
            sp s' = sp s + 2 \<and> cp s' = cp s + 2) \<and>
         (\<not> (started (server_spawn r) \<and> started (client_spawn r)) \<longrightarrow>
            sp s' = sp s + 1 \<and> cp s' = cp s + 1)"
  using iter_shape [OF assms] by blast

lemma started_samples:
  "started (server_spawn resp_garbled)" "started (client_spawn resp_garbled)"
  "\<not> started (server_spawn resp_server_down)"
  by (simp_all add: started_def resp_garbled_def resp_server_down_def resp_measured_def
      proc_graceful_def proc_stubborn_def proc_exited_def)

theorem port_stride_by_outcome_witness:
  "started (server_spawn resp_garbled) \<and> started (client_spawn resp_garbled) \<and>
   fst (bench_iter resp_garbled ''/tmp/sb-bench-x'' ''none'' init_bench []) =
     Inr \<lparr>results = [(''none'', None)], sp = 20002, cp = 15002\<rparr> \<and>
   sp \<lparr>results = [(''none'', None)], sp = 20002, cp = 15002\<rparr> = sp init_bench + 2 \<and>
   fst (bench_iter resp_server_down ''/tmp/sb-bench-x'' ''aes-256-gcm'' init_bench []) =
     Inr \<lparr>results = [(''aes-256-gcm'', None)], sp = 20001, cp = 15001\<rparr> \<and>
   sp \<lparr>results = [(''aes-256-gcm'', None)], sp = 20001, cp = 15001\<rparr> = sp init_bench + 1"
proof -
  have g: "fst (bench_iter resp_garbled ''/tmp/sb-bench-x'' ''none'' init_bench []) =
     Inr \<lparr>results = [(''none'', None)], sp = 20002, cp = 15002\<rparr>"
    by (simp add: fst_iter_garbled init_bench_def BASE_SERVER_PORT_def BASE_CLIENT_PORT_def)
  from port_stride_by_outcome [OF g] port_stride_by_outcome [OF fst_iter_server_down_sample] g fst_iter_server_down_sample
  show ?thesis by (simp add: started_samples)
qed

theorem ports_strictly_increasing_witness:
  "ports_at env_mixed ''/tmp/sb-bench-x'' [] 2 = Some (20004, 15004) \<and>
   ports_at env_mixed ''/tmp/sb-bench-x'' [] 3 = Some (20005, 15005) \<and>
   (20004::int) < 20005 \<and> (15004::int) < 15005 \<and> (20004::int) \<noteq> 15005 \<and> (15004::int) \<noteq> 20005"
proof -
  have a: "ports_at env_mixed ''/tmp/sb-bench-x'' [] 2 = Some (20004, 15004)"
    using sample_loop_2 [of "''/tmp/sb-bench-x''"]
    by (cases "bench_loop env_mixed 0 ''/tmp/sb-bench-x'' (take 2 tests) init_bench []")
       (simp add: ports_at_def)
  have b: "ports_at env_mixed ''/tmp/sb-bench-x'' [] 3 = Some (20005, 15005)"
    using sample_loop_3 [of "''/tmp/sb-bench-x''"]
    by (cases "bench_loop env_mixed 0 ''/tmp/sb-bench-x'' (take 3 tests) init_bench []")
       (simp add: ports_at_def)
  have "(2::nat) < 3" "3 < length tests" by (simp_all add: length_tests)
  from ports_strictly_increasing [OF this a b] a b show ?thesis by simp
qed

text \<open>
  Claim C4: in an iteration whose server process has exited at the settle check, the start
  operation returns no handle, the recorded result is a failure, the only process spawned
  in the iteration is the server (the client is never started), and the loop goes on with
  the next method.
\<close>

theorem server_failure_skips_client:
  assumes "openssl_out (env i) = Inr t" and "server_write (env i) = None"
    and "client_write (env i) = None"
    and "server_spawn (env i) = Inr p" and "poll_result p = Some rc"
  shows "fst (start_singbox (server_spawn (env i)) cfg_path name tr0) = Inr None \<and>
         (\<exists>s' tr'. bench_iter (env i) wd m s tr = (Inr s', tr') \<and>
            results s' = results s @ [(m, None)] \<and>
            filter is_Spawn tr' = filter is_Spawn tr @ [Spawn (server_cmd wd m) (pid p)] \<and>
            bench_loop env i wd (m # ms) s tr = bench_loop env (Suc i) wd ms s' tr')"
proof
  show "fst (start_singbox (server_spawn (env i)) cfg_path name tr0) = Inr None"
    using assms by (simp add: start_singbox_def)
next
  let ?s' = "s\<lparr>results := results s @ [(m, None)], sp := sp s + 1, cp := cp s + 1\<rparr>"
  let ?tr' = "tr @ setup_events wd m (strip t) s @
        [Spawn (server_cmd wd m) (pid p), Print (MsgStartFailed ''server'' (stderr_text p))]"
  have it: "bench_iter (env i) wd m s tr = (Inr ?s', ?tr')"
    by (rule iter_server_down [OF assms])
  moreover have "results ?s' = results s @ [(m, None)]" by simp
  moreover have "filter is_Spawn ?tr' = filter is_Spawn tr @ [Spawn (server_cmd wd m) (pid p)]"
    by (simp add: setup_events_def)
  moreover have "bench_loop env i wd (m # ms) s tr = bench_loop env (Suc i) wd ms ?s' ?tr'"
    using it by simp
  ultimately show "\<exists>s' tr'. bench_iter (env i) wd m s tr = (Inr s', tr') \<and>
            results s' = results s @ [(m, None)] \<and>
            filter is_Spawn tr' = filter is_Spawn tr @ [Spawn (server_cmd wd m) (pid p)] \<and>
            bench_loop env i wd (m # ms) s tr = bench_loop env (Suc i) wd ms s' tr'"
    by blast
qed

theorem server_failure_skips_client_witness:
  "fst (start_singbox (server_spawn (env_mixed 2)) ''/tmp/sb-bench-x/server-aes-256-gcm.json''
          ''server'' []) = Inr None \<and>
   (\<exists>s' tr'. bench_iter (env_mixed 2) ''/tmp/sb-bench-x'' ''aes-256-gcm'' init_bench [] = (Inr s', tr') \<and>
      results s' = results init_bench @ [(''aes-256-gcm'', None)] \<and>
      filter is_Spawn tr' =
        filter is_Spawn [] @ [Spawn (server_cmd ''/tmp/sb-bench-x'' ''aes-256-gcm'') (pid proc_exited)] \<and>
      bench_loop env_mixed 2 ''/tmp/sb-bench-x'' (''aes-256-gcm'' # drop 3 tests) init_bench [] =
        bench_loop env_mixed (Suc 2) ''/tmp/sb-bench-x'' (drop 3 tests) s' tr')"
proof -
  have e: "env_mixed 2 = resp_server_down" by (simp add: env_mixed_def)
  have h: "openssl_out (env_mixed 2) = Inr (''c2VjcmV0'' @ [CHR 0x0A])"
    "server_write (env_mixed 2) = None" "client_write (env_mixed 2) = None"
    "server_spawn (env_mixed 2) = Inr proc_exited" "poll_result proc_exited = Some 1"
    unfolding e by (simp_all add: resp_server_down_def resp_measured_def proc_exited_def)
  show ?thesis by (rule server_failure_skips_client [where env = env_mixed and i = 2, OF h])
qed


text \<open>
  Claim C5: when the transfer tool fails, times out or prints something that is not a number,
  the measurement returns \<open>None\<close> instead of raising, the iteration records a failure,
  stops the client and then the server, and the loop goes on with the next method.
\<close>

theorem measurement_failure_recorded:
  assumes "openssl_out (env i) = Inr t" and "server_write (env i) = None"
    and "client_write (env i) = None"
    and "server_spawn (env i) = Inr ps" and "poll_result ps = None" and "errors_only ps"
    and "client_spawn (env i) = Inr pc" and "poll_result pc = None" and "errors_only pc"
    and "measurement_failed (curl_out (env i))"
  shows "fst (run_curl (curl_out (env i)) port tr0) = Inr None \<and>
         (\<exists>s' evs. bench_iter (env i) wd m s tr =
              (Inr s', tr @ evs @ [Print MsgFailed] @ stop_calls pc @ stop_calls ps) \<and>
            results s' = results s @ [(m, None)] \<and>
            bench_loop env i wd (m # ms) s tr =
              bench_loop env (Suc i) wd ms s'
                (tr @ evs @ [Print MsgFailed] @ stop_calls pc @ stop_calls ps))"
proof
  from run_curl_failed [OF assms(10)] show "fst (run_curl (curl_out (env i)) port tr0) = Inr None"
    by (metis fst_conv)
next
  let ?tr1 = "tr @ setup_events wd m (strip t) s @
        [Spawn (server_cmd wd m) (pid ps), Spawn (client_cmd wd m) (pid pc)]"
  let ?s' = "s\<lparr>results := results s @ [(m, None)], sp := sp s + 2, cp := cp s + 2\<rparr>"
  from run_curl_failed [OF assms(10)] obtain evs where
    rc: "run_curl (curl_out (env i)) (cp s) ?tr1 =
      (Inr None, ?tr1 @ CheckOutput (curl_cmd (cp s)) # evs)"
    by blast
  let ?evs = "setup_events wd m (strip t) s @
        [Spawn (server_cmd wd m) (pid ps), Spawn (client_cmd wd m) (pid pc)] @
        CheckOutput (curl_cmd (cp s)) # evs"
  have it: "bench_iter (env i) wd m s tr =
      (Inr ?s', tr @ ?evs @ [Print MsgFailed] @ stop_calls pc @ stop_calls ps)"
    using iter_measured [OF assms(1-9) rc refl] by simp
  moreover have "results ?s' = results s @ [(m, None)]" by simp
  moreover have "bench_loop env i wd (m # ms) s tr =
      bench_loop env (Suc i) wd ms ?s' (tr @ ?evs @ [Print MsgFailed] @ stop_calls pc @ stop_calls ps)"
    using it by simp
  ultimately show "\<exists>s' evs. bench_iter (env i) wd m s tr =
              (Inr s', tr @ evs @ [Print MsgFailed] @ stop_calls pc @ stop_calls ps) \<and>
            results s' = results s @ [(m, None)] \<and>
            bench_loop env i wd (m # ms) s tr =
              bench_loop env (Suc i) wd ms s'
                (tr @ evs @ [Print MsgFailed] @ stop_calls pc @ stop_calls ps)"
    by blast
qed

theorem measurement_failure_recorded_witness:
  "measurement_failed (curl_out (env_mixed 1)) \<and> measurement_failed (curl_out (env_mixed 3)) \<and>
   fst (run_curl (curl_out (env_mixed 1)) 15002 []) = Inr None \<and>
   fst (run_curl (curl_out (env_mixed 3)) 15005 []) = Inr None \<and>
   (\<exists>s' evs. bench_iter (env_mixed 1) ''/tmp/sb-bench-x'' ''aes-128-gcm'' init_bench [] =
        (Inr s', [] @ evs @ [Print MsgFailed] @ stop_calls proc_stubborn @ stop_calls proc_graceful) \<and>
      results s' = results init_bench @ [(''aes-128-gcm'', None)] \<and>
      bench_loop env_mixed 1 ''/tmp/sb-bench-x'' (''aes-128-gcm'' # drop 2 tests) init_bench [] =
        bench_loop env_mixed (Suc 1) ''/tmp/sb-bench-x'' (drop 2 tests) s'
          ([] @ evs @ [Print MsgFailed] @ stop_calls proc_stubborn @ stop_calls proc_graceful))"
proof -
  have e: "env_mixed 1 = resp_garbled" "env_mixed 3 = resp_timeout" by (simp_all add: env_mixed_def)
  have po: "poll_result proc_graceful = None" "errors_only proc_graceful"
    "poll_result proc_stubborn = None" "errors_only proc_stubborn"
    by (simp_all add: errors_only_def proc_graceful_def proc_stubborn_def)
  have h1: "openssl_out (env_mixed 1) = Inr (''c2VjcmV0'' @ [CHR 0x0A])"
    "server_write (env_mixed 1) = None" "client_write (env_mixed 1) = None"
    "server_spawn (env_mixed 1) = Inr proc_graceful"
    "client_spawn (env_mixed 1) = Inr proc_stubborn"
    unfolding e by (simp_all add: resp_garbled_def resp_measured_def)
  have h3: "openssl_out (env_mixed 3) = Inr (''c2VjcmV0'' @ [CHR 0x0A])"
    "server_write (env_mixed 3) = None" "client_write (env_mixed 3) = None"
    "server_spawn (env_mixed 3) = Inr proc_graceful"
    "client_spawn (env_mixed 3) = Inr proc_stubborn"
    unfolding e by (simp_all add: resp_timeout_def resp_measured_def)
  have m1: "measurement_failed (curl_out (env_mixed 1))"
    unfolding e by (simp add: measurement_failed_def resp_garbled_def py_float_garbled)
  have m3: "measurement_failed (curl_out (env_mixed 3))"
    unfolding e by (simp add: measurement_failed_def resp_timeout_def)
  from measurement_failure_recorded [where env = env_mixed and i = 1, OF h1(1-4) po(1,2) h1(5) po(3,4) m1]
    measurement_failure_recorded [where env = env_mixed and i = 3 and port = 15005 and ?tr0.0 = "[]",
        OF h3(1-4) po(1,2) h3(5) po(3,4) m3] m1 m3
  show ?thesis by blast
qed

text \<open>
  Claim C9: when the transfer tool reports \<^verbatim>\<open>12500000\<close>, the recorded speed is
  \<open>12500000 / (1024 * 1024)\<close>, within 0.005 of 11.92, and the Gbps value printed in the loop
  and in the summary is that speed times \<open>8 / 1000\<close>, within 0.0005 of 0.095. The recorded
  speed is \<open>390625 / 2 ^ 15\<close>, a binary fraction with a numerator below \<open>2 ^ 53\<close>: the
  division of the script is exact in binary64 too.
\<close>

theorem speed_12500000:
  assumes "openssl_out r = Inr t" and "server_write r = None" and "client_write r = None"
    and "server_spawn r = Inr ps" and "poll_result ps = None" and "errors_only ps"
    and "client_spawn r = Inr pc" and "poll_result pc = None" and "errors_only pc"
    and "curl_out r = Inr text" and "strip text = ''12500000''"
  shows "\<exists>s' tr' v g. bench_iter r wd m s tr = (Inr s', tr') \<and>
           results s' = results s @ [(m, Some (Fin v))] \<and>
           Print (MsgSpeed (Fin v) (Fin g)) \<in> set tr' \<and>
           summary [(m, Some (Fin v))] = [MsgRow m (Fin v) (Fin g)] \<and>
           v = 12500000 / (1024 * 1024) \<and> v = 390625 / 2 ^ 15 \<and> \<bar>v - 11.92\<bar> < 0.005 \<and>
           g = v * 8 / 1000 \<and> \<bar>g - 0.095\<bar> < 0.0005"
proof -
  let ?v = "12500000 / (1024 * 1024) :: rat"
  let ?g = "?v * 8 / 1000"
  let ?tr1 = "tr @ setup_events wd m (strip t) s @
        [Spawn (server_cmd wd m) (pid ps), Spawn (client_cmd wd m) (pid pc)]"
  let ?s' = "s\<lparr>results := results s @ [(m, Some (Fin ?v))], sp := sp s + 2, cp := cp s + 2\<rparr>"
  let ?tr' = "(?tr1 @ [CheckOutput (curl_cmd (cp s))]) @
      [Print (case Some (Fin ?v) of Some v \<Rightarrow> MsgSpeed v (gbps_of v) | None \<Rightarrow> MsgFailed)] @
      stop_calls pc @ stop_calls ps"
  have pf: "py_float (strip text) = Some (Fin 12500000)"
    using assms(11) py_float_12500000 by simp
  have rc: "run_curl (curl_out r) (cp s) ?tr1 =
      (Inr (Some (Fin ?v)), ?tr1 @ [CheckOutput (curl_cmd (cp s))])"
    using run_curl_number [OF pf] assms(10) by simp
  have it: "bench_iter r wd m s tr = (Inr ?s', ?tr')"
    by (rule iter_measured [OF assms(1-9) rc refl])
  have g: "gbps_of (Fin ?v) = Fin ?g" by (simp add: gbps_of_def)
  have "results ?s' = results s @ [(m, Some (Fin ?v))]" by simp
  moreover have "Print (MsgSpeed (Fin ?v) (Fin ?g)) \<in> set ?tr'"
    using g by simp
  moreover have "summary [(m, Some (Fin ?v))] = [MsgRow m (Fin ?v) (Fin ?g)]"
    using g by (simp add: summary_def)
  moreover have "?v = 390625 / 2 ^ 15" "\<bar>?v - 11.92\<bar> < 0.005" "\<bar>?g - 0.095\<bar> < 0.0005"
    by simp_all
  ultimately show ?thesis using it by blast
qed

theorem speed_12500000_witness:
  "strip (''12500000'' @ [CHR 0x0A]) = ''12500000'' \<and>
   (\<exists>s' tr' v g. bench_iter resp_measured ''/tmp/sb-bench-x'' ''none'' init_bench [] = (Inr s', tr') \<and>
           results s' = results init_bench @ [(''none'', Some (Fin v))] \<and>
           Print (MsgSpeed (Fin v) (Fin g)) \<in> set tr' \<and>
           summary [(''none'', Some (Fin v))] = [MsgRow ''none'' (Fin v) (Fin g)] \<and>
           v = 12500000 / (1024 * 1024) \<and> v = 390625 / 2 ^ 15 \<and> \<bar>v - 11.92\<bar> < 0.005 \<and>
           g = v * 8 / 1000 \<and> \<bar>g - 0.095\<bar> < 0.0005)"
proof -
  have st: "strip (''12500000'' @ [CHR 0x0A]) = ''12500000''"
    by (simp add: strip_def is_space_def)
  have po: "poll_result proc_graceful = None" "errors_only proc_graceful"
    "poll_result proc_stubborn = None" "errors_only proc_stubborn"
    by (simp_all add: errors_only_def proc_graceful_def proc_stubborn_def)
  have h: "openssl_out resp_measured = Inr (''c2VjcmV0'' @ [CHR 0x0A])"
    "server_write resp_measured = None" "client_write resp_measured = None"
    "server_spawn resp_measured = Inr proc_graceful"
    "client_spawn resp_measured = Inr proc_stubborn"
    "curl_out resp_measured = Inr (''12500000'' @ [CHR 0x0A])"
    by (simp_all add: resp_measured_def)
  from speed_12500000 [OF h(1-4) po(1,2) h(5) po(3,4) h(6) st] st show ?thesis by blast
qed

theorem results_one_per_method_witness:
  "\<exists>s' tr'. bench_loop env_mixed 0 ''/tmp/sb-bench-x'' tests init_bench [] = (Inr s', tr') \<and>
     map fst (results s') = tests \<and> length (results s') = length tests \<and>
     results s' = [(''none'', Some (Fin (12500000 / (1024 * 1024)))), (''aes-128-gcm'', None),
                     (''aes-256-gcm'', None), (''chacha20-ietf-poly1305'', None),
                     (''2022-blake3-aes-128-gcm'', None),
                     (''2022-blake3-aes-256-gcm'', Some (Fin (12500000 / (1024 * 1024))))]"
proof -
  from results_one_per_method
      [where env = env_mixed and wd = "''/tmp/sb-bench-x''" and tr = "[]", THEN conjunct2]
  obtain s' tr' where lo: "bench_loop env_mixed 0 ''/tmp/sb-bench-x'' tests init_bench [] = (Inr s', tr')"
    and m: "map fst (results s') = tests" "length (results s') = length tests"
    by (auto simp: no_uncaught_env_mixed)
  from lo sample_loop_6 [of "''/tmp/sb-bench-x''"] have
    "results s' = [(''none'', Some (Fin (12500000 / (1024 * 1024)))), (''aes-128-gcm'', None),
                     (''aes-256-gcm'', None), (''chacha20-ietf-poly1305'', None),
                     (''2022-blake3-aes-128-gcm'', None),
                     (''2022-blake3-aes-256-gcm'', Some (Fin (12500000 / (1024 * 1024))))]"
    by simp
  with lo m show ?thesis by blast
qed

end
